theory Spec2Isabelle
  imports Complex_Main
begin

section \<open>Data model\<close>

text \<open>
  Modelled from the spec: the model classes of \<^verbatim>\<open>web.models\<close> (\<^verbatim>\<open>User\<close>,
  \<^verbatim>\<open>PartnerMonthlyEntitlement\<close>, \<^verbatim>\<open>AIUsageDetails\<close>, \<^verbatim>\<open>SystemNotify\<close>) are not
  among the sources. The records below hold the fields that \<^verbatim>\<open>src/balance_utils.py\<close>
  reads and writes, as section 3 of the specification describes the account, the
  entitlement with its window \<open>[start, end)\<close>, the usage record and the notification.
  A \<^verbatim>\<open>User\<close> object held by the Python code is a snapshot (\<open>user\<close>); the row the
  store holds for the same key is a \<open>user_row\<close>: the two can differ, and the code reads
  balances from the snapshot and mutates them in the store. Balances and costs are Python
  integers, so \<open>int\<close>; instants are integers too. The notification type is the same
  text in every notification and is left out.
\<close>

text \<open>
  What an awaited ORM call can raise: \<^verbatim>\<open>DoesNotExist\<close> from a lookup or refresh that
  finds no row, and any other failure of the store.
\<close>

datatype exn = DoesNotExist | DatabaseError

datatype billing_mode = Normal | PartnerOnly | Dual

record user =
  pk :: int
  username :: string
  surplus_number :: int
  superior_id :: "int option"

record user_row =
  username_col :: string
  surplus_number_col :: int
  superior_id_col :: "int option"

record entitlement =
  ent_user :: int
  ent_partner :: int
  is_active :: bool
  start_at :: int
  end_at :: int

record usage_details =
  use_number :: int
  surplus :: int
  use_type :: string
  ud_user :: int
  ud_tokens :: int
  consumer :: int
  ud_store :: "int option"

datatype notify_title = TitleReplyQuotaInsufficient | TitleSubordinateInsufficient

datatype notify_content =
  ContentRenew
  | ContentPartnerInsufficient
  | ContentSubordinateInsufficient string

record system_notify =
  title :: notify_title
  content :: notify_content
  sn_user :: int

datatype query =
  QConditionalDecrement int int
  | QUnconditionalIncrement int int
  | QRefresh int
  | QGet int
  | QGroupExists int
  | QEntitlementExists int int
  | QCreateUsage
  | QCreateNotify
  | QSaveUser int

datatype log_level = INFO | WARNING | ERROR

text \<open>
  The store and the process around one call. \<open>faults\<close> decides which store queries
  raise: the query issued when \<open>n\<close> queries have been issued before raises when
  \<open>faults w n\<close> holds. \<open>queries\<close> is the list of queries issued so far and \<open>log\<close>
  the lines written to the logger (level and call site); \<open>now\<close> is what
  \<^verbatim>\<open>timezone.now()\<close> returns.
\<close>

record world =
  users :: "int \<rightharpoonup> user_row"
  user_groups :: "(int \<times> string) list"
  entitlements :: "entitlement list"
  usage :: "usage_details list"
  notifications :: "system_notify list"
  now :: int
  faults :: "nat \<Rightarrow> bool"
  queries :: "query list"
  log :: "(log_level \<times> string) list"

section \<open>Store operations\<close>

type_synonym 'a io = "world \<Rightarrow> (exn + 'a) \<times> world"

definition return_io :: "'a \<Rightarrow> 'a io" where
  "return_io x w = (Inr x, w)"

definition bind_io :: "'a io \<Rightarrow> ('a \<Rightarrow> 'b io) \<Rightarrow> 'b io" where
  "bind_io m f w = (case m w of (Inl e, w') \<Rightarrow> (Inl e, w') | (Inr x, w') \<Rightarrow> f x w')"

definition logger :: "log_level \<Rightarrow> string \<Rightarrow> world \<Rightarrow> world" where
  "logger lvl site w = w\<lparr>log := log w @ [(lvl, site)]\<rparr>"

text \<open>Every awaited ORM call is one query; it is recorded, and raises when the fault plan says so.\<close>

definition run_query :: "query \<Rightarrow> 'a io \<Rightarrow> 'a io" where
  "run_query q body w =
     (let w' = w\<lparr>queries := queries w @ [q]\<rparr>
      in if faults w (length (queries w)) then (Inl DatabaseError, w') else body w')"

text \<open>
  \<^verbatim>\<open>User.objects.filter(pk=key, surplus_number__gte=cost).aupdate(surplus_number=F('surplus_number') - cost)\<close>:
  the number of rows changed.
\<close>

definition conditional_decrement :: "int \<Rightarrow> int \<Rightarrow> nat io" where
  "conditional_decrement key cost =
     run_query (QConditionalDecrement key cost) (\<lambda>w.
       case users w key of
         None \<Rightarrow> (Inr 0, w)
       | Some r \<Rightarrow>
           if cost \<le> surplus_number_col r
           then (Inr 1, w\<lparr>users := (users w)(key \<mapsto> r\<lparr>surplus_number_col := surplus_number_col r - cost\<rparr>)\<rparr>)
           else (Inr 0, w))"

text \<open>
  \<^verbatim>\<open>User.objects.filter(pk=key).aupdate(surplus_number=F('surplus_number') + amount)\<close>.
\<close>

definition unconditional_increment :: "int \<Rightarrow> int \<Rightarrow> nat io" where
  "unconditional_increment key amount =
     run_query (QUnconditionalIncrement key amount) (\<lambda>w.
       case users w key of
         None \<Rightarrow> (Inr 0, w)
       | Some r \<Rightarrow>
           (Inr 1, w\<lparr>users := (users w)(key \<mapsto> r\<lparr>surplus_number_col := surplus_number_col r + amount\<rparr>)\<rparr>))"

text \<open>\<^verbatim>\<open>u.arefresh_from_db(fields=['surplus_number'])\<close>: the snapshot with the stored balance.\<close>

definition arefresh_from_db :: "user \<Rightarrow> user io" where
  "arefresh_from_db u =
     run_query (QRefresh (pk u)) (\<lambda>w.
       case users w (pk u) of
         None \<Rightarrow> (Inl DoesNotExist, w)
       | Some r \<Rightarrow> (Inr (u\<lparr>surplus_number := surplus_number_col r\<rparr>), w))"

text \<open>\<^verbatim>\<open>User.objects.select_related().aget(pk=key)\<close>.\<close>

definition aget :: "int \<Rightarrow> user io" where
  "aget key =
     run_query (QGet key) (\<lambda>w.
       case users w key of
         None \<Rightarrow> (Inl DoesNotExist, w)
       | Some r \<Rightarrow>
           (Inr \<lparr>pk = key, username = username_col r, surplus_number = surplus_number_col r,
                 superior_id = superior_id_col r\<rparr>, w))"

text \<open>\<^verbatim>\<open>u.groups.filter(name=g).aexists()\<close>.\<close>

definition groups_filter_aexists :: "user \<Rightarrow> string \<Rightarrow> bool io" where
  "groups_filter_aexists u g =
     run_query (QGroupExists (pk u)) (\<lambda>w. (Inr ((pk u, g) \<in> set (user_groups w)), w))"

text \<open>
  \<^verbatim>\<open>PartnerMonthlyEntitlement.objects.filter(user=u, partner=p, is_active=True,
  start_at__lte=now, end_at__gt=now).aexists()\<close>.
\<close>

definition entitlement_filter_aexists :: "user \<Rightarrow> user \<Rightarrow> int \<Rightarrow> bool io" where
  "entitlement_filter_aexists u p t =
     run_query (QEntitlementExists (pk u) (pk p)) (\<lambda>w.
       (Inr (list_ex (\<lambda>e. ent_user e = pk u \<and> ent_partner e = pk p \<and> is_active e
                          \<and> start_at e \<le> t \<and> t < end_at e) (entitlements w)), w))"

text \<open>\<^verbatim>\<open>AIUsageDetails.objects.acreate(...)\<close> and \<^verbatim>\<open>AIUsageDetails(...).asave()\<close>.\<close>

definition usage_acreate :: "usage_details \<Rightarrow> unit io" where
  "usage_acreate d = run_query QCreateUsage (\<lambda>w. (Inr (), w\<lparr>usage := usage w @ [d]\<rparr>))"

text \<open>\<^verbatim>\<open>SystemNotify.objects.acreate(...)\<close> and \<^verbatim>\<open>SystemNotify(...).asave()\<close>.\<close>

definition notify_acreate :: "system_notify \<Rightarrow> unit io" where
  "notify_acreate n = run_query QCreateNotify (\<lambda>w. (Inr (), w\<lparr>notifications := notifications w @ [n]\<rparr>))"

text \<open>\<^verbatim>\<open>u.asave()\<close>: the row of the snapshot's key gets the snapshot's fields.\<close>

definition user_asave :: "user \<Rightarrow> unit io" where
  "user_asave u =
     run_query (QSaveUser (pk u)) (\<lambda>w.
       (Inr (), w\<lparr>users := (users w)(pk u \<mapsto>
          \<lparr>username_col = username u, surplus_number_col = surplus_number u,
           superior_id_col = superior_id u\<rparr>)\<rparr>))"

section \<open>Strategy resolution\<close>

record strategy =
  is_partner_subordinate :: bool
  partner_user :: "user option"
  has_monthly_entitlement :: bool
  billing_mode :: billing_mode

text \<open>The name of the partner group, in UTF-8.\<close>

definition partner_group :: string where
  "partner_group = [CHR 0xE5, CHR 0x90, CHR 0x88, CHR 0xE4, CHR 0xBD, CHR 0x9C, CHR 0xE5, CHR 0x95, CHR 0x86]"

definition default_strategy :: strategy where
  "default_strategy =
     \<lparr>is_partner_subordinate = False, partner_user = None,
      has_monthly_entitlement = False, billing_mode = Normal\<rparr>"

text \<open>Python's truth value of \<^verbatim>\<open>user.superior_id\<close>: \<^verbatim>\<open>None\<close> and \<^verbatim>\<open>0\<close> are false.\<close>

definition truthy :: "int option \<Rightarrow> bool" where
  "truthy x = (case x of None \<Rightarrow> False | Some n \<Rightarrow> n \<noteq> 0)"

text \<open>
  \<^verbatim>\<open>_get_billing_strategy\<close>. The \<^verbatim>\<open>try\<close> block catches \<^verbatim>\<open>User.DoesNotExist\<close> only;
  the dictionary is still the default one when \<^verbatim>\<open>aget\<close> raises it.
\<close>

definition get_billing_strategy :: "user \<Rightarrow> strategy io" where
  "get_billing_strategy u w =
     (if truthy (superior_id u) then
        (case bind_io (aget (the (superior_id u))) (\<lambda>superior.
                bind_io (groups_filter_aexists superior partner_group) (\<lambda>is_partner.
                  if is_partner then
                    bind_io (entitlement_filter_aexists u superior (now w)) (\<lambda>has_entitlement.
                      return_io
                        \<lparr>is_partner_subordinate = True, partner_user = Some superior,
                         has_monthly_entitlement = has_entitlement,
                         billing_mode = (if has_entitlement then PartnerOnly else Dual)\<rparr>)
                  else return_io default_strategy)) w of
           (Inl DoesNotExist, w') \<Rightarrow> (Inr default_strategy, w')
         | r \<Rightarrow> r)
      else (Inr default_strategy, w))"

section \<open>Results and messages\<close>

text \<open>
  The functions return dictionaries. A \<open>result\<close> keeps the \<^verbatim>\<open>status\<close>, the
  \<^verbatim>\<open>message\<close> (one constructor per message text of the source), the
  \<^verbatim>\<open>billing_mode\<close> and, in \<open>nums\<close>, the integer entries under their keys; the
  entries that only repeat a name or the multiplier are left out. Log lines are kept by
  level and call site, so the \<^verbatim>\<open>log_prefix\<close> and \<^verbatim>\<open>details\<close> arguments, which
  only shape the text of a log line, are not arguments of the model.
\<close>

datatype status = StatusSuccess | StatusError | StatusInsufficientBalance | StatusConcurrentConflict

datatype message =
  MsgPartnerInsufficient
  | MsgInsufficient
  | MsgPartnerDeductConflict
  | MsgUserDeductFailedPartnerRolledBack
  | MsgDeductConflict
  | MsgDeductException exn
  | MsgInsufficientHandled
  | MsgHandlerException exn
  | MsgAmountMustBePositive
  | MsgUserDoesNotExist
  | MsgIncreaseException exn
  | MsgYouInsufficient
  | MsgPartnerInsufficientContact
  | MsgBothInsufficient

datatype customer_message = CustomerBusy | CustomerQuotaInsufficient

record result =
  status :: status
  message :: "message option"
  mode :: "billing_mode option"
  nums :: "(string \<times> int) list"

text \<open>The usage types the source names, in UTF-8.\<close>

definition usage_ai_reply :: string where
  "usage_ai_reply = [CHR 0x61, CHR 0x69, CHR 0xE5, CHR 0x9B, CHR 0x9E, CHR 0xE5, CHR 0xA4, CHR 0x8D]"

definition usage_recharge :: string where
  "usage_recharge = [CHR 0xE5, CHR 0x85, CHR 0x85, CHR 0xE5, CHR 0x80, CHR 0xBC]"

definition usage_buy_partner_package :: string where
  "usage_buy_partner_package =
     [CHR 0xE8, CHR 0xB4, CHR 0xAD, CHR 0xE4, CHR 0xB9, CHR 0xB0, CHR 0xE5, CHR 0x90, CHR 0x88,
      CHR 0xE4, CHR 0xBD, CHR 0x9C, CHR 0xE5, CHR 0x95, CHR 0x86, CHR 0xE5, CHR 0xA5, CHR 0x97,
      CHR 0xE9, CHR 0xA4, CHR 0x90]"

definition usage_package_gift :: string where
  "usage_package_gift =
     [CHR 0xE5, CHR 0xA5, CHR 0x97, CHR 0xE9, CHR 0xA4, CHR 0x90, CHR 0xE8, CHR 0xB5, CHR 0xA0,
      CHR 0xE9, CHR 0x80, CHR 0x81]"

text \<open>\<^verbatim>\<open>store if usage_type not in ["...", "...", "..."] else None\<close>.\<close>

definition store_for :: "string \<Rightarrow> int option \<Rightarrow> int option" where
  "store_for usage_type store =
     (if usage_type \<in> set [usage_recharge, usage_buy_partner_package, usage_package_gift]
      then None else store)"

text \<open>
  \<^verbatim>\<open>_get_customer_friendly_message\<close>: the dictionary gives one text for the AI reply and
  the same text as the default for every other key.
\<close>

definition get_customer_friendly_message :: "string \<Rightarrow> customer_message" where
  "get_customer_friendly_message usage_type =
     (if usage_type = usage_ai_reply then CustomerBusy else CustomerQuotaInsufficient)"

text \<open>\<^verbatim>\<open>_get_notification_title\<close>: every key and the default give the same title.\<close>

definition get_notification_title :: "string \<Rightarrow> notify_title" where
  "get_notification_title usage_type = TitleReplyQuotaInsufficient"

definition get_notification_content :: "string \<Rightarrow> int \<Rightarrow> notify_content" where
  "get_notification_content usage_type closed_stores_count = ContentRenew"

section \<open>Cost\<close>

text \<open>
  \<^verbatim>\<open>math.ceil(tokens / 1000) if tokens > 0 else 0\<close>. Python divides in binary floating
  point; the model divides exactly. The two agree for every \<open>tokens\<close> below \<open>2 ^ 53\<close>,
  where the rounding error of the quotient is below one thousandth.
\<close>

definition base_cost_of :: "int \<Rightarrow> int" where
  "base_cost_of tokens = (if 0 < tokens then \<lceil>(of_int tokens :: real) / 1000\<rceil> else 0)"

text \<open>
  \<^verbatim>\<open>math.ceil(base_cost * cost_multiplier)\<close>. The multiplier is a Python float; the model
  takes a real number and multiplies exactly, which is what Python computes whenever the
  exact product is itself a float (so for the documented multipliers \<^verbatim>\<open>1.0\<close> and
  \<^verbatim>\<open>2.0\<close> on any base cost below \<open>2 ^ 52\<close>). The billing functions take the cost
  as an integer argument, and what is proved of them holds for every integer cost.
\<close>

definition token_cost_of :: "int \<Rightarrow> real \<Rightarrow> int" where
  "token_cost_of tokens cost_multiplier = \<lceil>of_int (base_cost_of tokens) * cost_multiplier\<rceil>"

section \<open>Insufficient balance\<close>

text \<open>
  \<^verbatim>\<open>_handle_partner_insufficient_balance\<close>: two notifications and a log line; an
  exception is logged and goes no further.
\<close>

definition handle_partner_insufficient_balance :: "user \<Rightarrow> user \<Rightarrow> int \<Rightarrow> string \<Rightarrow> world \<Rightarrow> world" where
  "handle_partner_insufficient_balance u partner token_cost usage_type w =
     (case bind_io (notify_acreate \<lparr>title = get_notification_title usage_type,
                                     content = ContentPartnerInsufficient, sn_user = pk u\<rparr>) (\<lambda>_.
             notify_acreate \<lparr>title = TitleSubordinateInsufficient,
                             content = ContentSubordinateInsufficient (username u),
                             sn_user = pk partner\<rparr>) w of
        (Inl e, w') \<Rightarrow> logger ERROR ''partner insufficient: notification failed'' w'
      | (Inr _, w') \<Rightarrow> logger INFO ''partner insufficient: notifications created'' w')"

text \<open>
  \<^verbatim>\<open>_handle_insufficient_balance_internal\<close>, step 1: a usage record for what is left,
  when something is left.
\<close>

definition handler_record_remainder :: "user \<Rightarrow> int \<Rightarrow> string \<Rightarrow> int option \<Rightarrow> unit io" where
  "handler_record_remainder u tokens usage_type store w =
     (if 0 < surplus_number u
      then bind_io (usage_acreate
             \<lparr>use_number = surplus_number u, surplus = 0, use_type = usage_type,
              ud_user = pk u, ud_tokens = tokens, consumer = pk u,
              ud_store = store_for usage_type store\<rparr>)
             (\<lambda>_ w1. (Inr (), logger INFO ''insufficient: remainder recorded'' w1)) w
      else (Inr (), w))"

text \<open>
  Steps 2 to 4, on the snapshot whose balance has been set to zero: save it, and create
  the notification for the account holder.
\<close>

definition handler_zero_and_notify :: "user \<Rightarrow> string \<Rightarrow> unit io" where
  "handler_zero_and_notify u0 usage_type =
     bind_io (user_asave u0) (\<lambda>_ w2.
       bind_io (notify_acreate
          \<lparr>title = get_notification_title usage_type,
           content = get_notification_content usage_type 0, sn_user = pk u0\<rparr>)
         (\<lambda>_ w3. (Inr (), logger INFO ''insufficient: notification created'' w3))
         (logger INFO ''insufficient: balance zeroed'' w2))"

text \<open>
  \<^verbatim>\<open>_handle_insufficient_balance_internal\<close>. The function changes the snapshot it is
  given, so the model returns it with the result. An exception leaves the
  \<^verbatim>\<open>try\<close> block where it is raised: the snapshot is zeroed only when step 1 went
  through.
\<close>

definition handle_insufficient_balance_internal ::
  "user \<Rightarrow> int \<Rightarrow> int \<Rightarrow> string \<Rightarrow> int option \<Rightarrow> world \<Rightarrow> (result \<times> user) \<times> world" where
  "handle_insufficient_balance_internal u token_cost tokens usage_type store w =
     (let info = [(''user_id'', pk u), (''original_balance'', surplus_number u),
                  (''required_cost'', token_cost), (''tokens'', tokens)];
          failed = (\<lambda>e. \<lparr>status = StatusError, message = Some (MsgHandlerException e),
                          mode = None, nums = info\<rparr>);
          u0 = u\<lparr>surplus_number := 0\<rparr>
      in case handler_record_remainder u tokens usage_type store w of
           (Inl e, w1) \<Rightarrow> ((failed e, u), logger ERROR ''insufficient: handler failed'' w1)
         | (Inr _, w1) \<Rightarrow>
             (case handler_zero_and_notify u0 usage_type w1 of
                (Inl e, w2) \<Rightarrow> ((failed e, u0), logger ERROR ''insufficient: handler failed'' w2)
              | (Inr _, w2) \<Rightarrow>
                  ((\<lparr>status = StatusSuccess, message = Some MsgInsufficientHandled,
                     mode = None, nums = info\<rparr>, u0), w2)))"

text \<open>
  \<^verbatim>\<open>check_and_handle_insufficient_balance\<close>: the cost is computed from the tokens alone.
  The result is the returned triple and the snapshot as the call leaves it.
\<close>

definition check_and_handle_insufficient_balance ::
  "user \<Rightarrow> int \<Rightarrow> string \<Rightarrow> int option
     \<Rightarrow> ((bool \<times> customer_message option \<times> result option) \<times> user) io" where
  "check_and_handle_insufficient_balance u tokens usage_type store =
     (let token_cost = base_cost_of tokens
      in bind_io (get_billing_strategy u) (\<lambda>bs w.
           if is_partner_subordinate bs \<and> billing_mode bs = PartnerOnly \<and> partner_user bs \<noteq> None
           then
             (let partner = the (partner_user bs)
              in if token_cost \<le> surplus_number partner then (Inr ((True, None, None), u), w)
                 else
                   (let error_info =
                          \<lparr>status = StatusInsufficientBalance, message = Some MsgPartnerInsufficient,
                           mode = Some PartnerOnly,
                           nums = [(''required'', token_cost),
                                   (''partner_available'', surplus_number partner)]\<rparr>
                    in (Inr ((False, Some (get_customer_friendly_message usage_type), Some error_info), u),
                        handle_partner_insufficient_balance u partner token_cost usage_type w)))
           else if token_cost \<le> surplus_number u then (Inr ((True, None, None), u), w)
           else
             (case handle_insufficient_balance_internal u token_cost tokens usage_type store
                     (logger WARNING ''check: user balance insufficient'' w) of
                ((info, u'), w') \<Rightarrow>
                  (Inr ((False, Some (get_customer_friendly_message usage_type), Some info), u'), w'))))"

text \<open>\<^verbatim>\<open>check_balance_sufficient\<close>: the check without any handling.\<close>

definition check_balance_sufficient :: "user \<Rightarrow> int \<Rightarrow> (bool \<times> message option) io" where
  "check_balance_sufficient u tokens =
     (let token_cost = base_cost_of tokens
      in if token_cost = 0 then return_io (True, None)
         else bind_io (get_billing_strategy u) (\<lambda>bs.
           if is_partner_subordinate bs then
             (case partner_user bs of
                None \<Rightarrow>
                  if token_cost \<le> surplus_number u then return_io (True, None)
                  else return_io (False, Some MsgYouInsufficient)
              | Some partner \<Rightarrow>
                  if billing_mode bs = PartnerOnly then
                    (if token_cost \<le> surplus_number partner then return_io (True, None)
                     else return_io (False, Some MsgPartnerInsufficientContact))
                  else
                    (let partner_sufficient = (token_cost \<le> surplus_number partner);
                         user_sufficient = (token_cost \<le> surplus_number u)
                     in if partner_sufficient \<and> user_sufficient then return_io (True, None)
                        else if \<not> partner_sufficient \<and> \<not> user_sufficient
                          then return_io (False, Some MsgBothInsufficient)
                        else if \<not> partner_sufficient
                          then return_io (False, Some MsgPartnerInsufficientContact)
                        else return_io (False, Some MsgYouInsufficient)))
           else if token_cost \<le> surplus_number u then return_io (True, None)
           else return_io (False, Some MsgYouInsufficient)))"

section \<open>Credit\<close>

text \<open>
  \<^verbatim>\<open>increase_balance\<close>. The whole body is one \<^verbatim>\<open>try\<close> block whose handler logs the
  exception and returns an error result.
\<close>

definition increase_balance :: "user \<Rightarrow> int \<Rightarrow> string \<Rightarrow> world \<Rightarrow> (bool \<times> result) \<times> world" where
  "increase_balance u amount usage_type w =
     (case (if amount \<le> 0
            then (Inr (False, \<lparr>status = StatusError, message = Some MsgAmountMustBePositive,
                               mode = None, nums = [(''amount'', amount)]\<rparr>),
                  logger WARNING ''increase: amount not positive'' w)
            else bind_io (unconditional_increment (pk u) amount) (\<lambda>updated_count w1.
                   if updated_count = 0
                   then (Inr (False, \<lparr>status = StatusError, message = Some MsgUserDoesNotExist,
                                      mode = None, nums = []\<rparr>),
                         logger ERROR ''increase: user does not exist'' w1)
                   else bind_io (arefresh_from_db u) (\<lambda>u'.
                          bind_io (usage_acreate
                             \<lparr>use_number = amount, surplus = surplus_number u', use_type = usage_type,
                              ud_user = pk u, ud_tokens = 0, consumer = pk u, ud_store = None\<rparr>)
                            (\<lambda>_ w2.
                               (Inr (True, \<lparr>status = StatusSuccess, message = None, mode = None,
                                            nums = [(''added'', amount),
                                                    (''remaining'', surplus_number u')]\<rparr>),
                                logger INFO ''increase: balance increased'' w2))) w1) w) of
        (Inl e, w') \<Rightarrow>
          ((False, \<lparr>status = StatusError, message = Some (MsgIncreaseException e),
                    mode = None, nums = []\<rparr>),
           logger ERROR ''increase: exception'' w')
      | (Inr r, w') \<Rightarrow> (r, w'))"

section \<open>Partner billing\<close>

text \<open>Step 3 of \<^verbatim>\<open>_execute_partner_billing\<close>: the usage records and the success result.\<close>

definition partner_billing_record ::
  "user \<Rightarrow> user \<Rightarrow> int \<Rightarrow> billing_mode \<Rightarrow> string \<Rightarrow> int \<Rightarrow> int option \<Rightarrow> (bool \<times> result) io" where
  "partner_billing_record u partner token_cost bmode usage_type tokens store =
     bind_io (usage_acreate
        \<lparr>use_number = token_cost, surplus = surplus_number partner, use_type = usage_type,
         ud_user = pk partner, ud_tokens = tokens, consumer = pk u,
         ud_store = store_for usage_type store\<rparr>) (\<lambda>_.
       bind_io (if bmode = Dual
                then usage_acreate
                  \<lparr>use_number = token_cost, surplus = surplus_number u, use_type = usage_type,
                   ud_user = pk u, ud_tokens = tokens, consumer = pk u,
                   ud_store = store_for usage_type store\<rparr>
                else return_io ()) (\<lambda>_.
         return_io (True,
           \<lparr>status = StatusSuccess, message = None, mode = Some bmode,
            nums = [(''partner_deducted'', token_cost),
                    (''user_deducted'', if bmode = Dual then token_cost else 0),
                    (''partner_remaining'', surplus_number partner),
                    (''user_remaining'', surplus_number u)]\<rparr>)))"

text \<open>
  Step 2, the body of the \<^verbatim>\<open>try\<close> block: the partner is debited first; in dual mode the
  user is debited next, and a user update that changes no row is answered by the
  unconditional credit to the partner and the conflict result.
\<close>

definition partner_billing_try ::
  "user \<Rightarrow> user \<Rightarrow> int \<Rightarrow> billing_mode \<Rightarrow> string \<Rightarrow> int \<Rightarrow> int option \<Rightarrow> (bool \<times> result) io" where
  "partner_billing_try u partner token_cost bmode usage_type tokens store =
     bind_io (conditional_decrement (pk partner) token_cost) (\<lambda>partner_updated.
       if partner_updated = 0
       then return_io (False, \<lparr>status = StatusConcurrentConflict,
                               message = Some MsgPartnerDeductConflict,
                               mode = Some bmode, nums = []\<rparr>)
       else bind_io (arefresh_from_db partner) (\<lambda>partner'.
              if bmode = Dual
              then bind_io (conditional_decrement (pk u) token_cost) (\<lambda>user_updated.
                     if user_updated = 0
                     then bind_io (unconditional_increment (pk partner) token_cost) (\<lambda>_.
                            return_io (False, \<lparr>status = StatusConcurrentConflict,
                                                message = Some MsgUserDeductFailedPartnerRolledBack,
                                                mode = Some bmode, nums = []\<rparr>))
                     else bind_io (arefresh_from_db u) (\<lambda>u'.
                            partner_billing_record u' partner' token_cost bmode usage_type tokens store))
              else partner_billing_record u partner' token_cost bmode usage_type tokens store))"

text \<open>
  \<^verbatim>\<open>_execute_partner_billing\<close>: the check on the snapshots, then the \<^verbatim>\<open>try\<close> block;
  any exception is logged and becomes the error result.
\<close>

definition execute_partner_billing ::
  "user \<Rightarrow> user \<Rightarrow> int \<Rightarrow> billing_mode \<Rightarrow> string \<Rightarrow> int \<Rightarrow> int option
     \<Rightarrow> world \<Rightarrow> (bool \<times> result) \<times> world" where
  "execute_partner_billing u partner token_cost bmode usage_type tokens store w =
     (if bmode = PartnerOnly \<and> surplus_number partner < token_cost
      then ((False, \<lparr>status = StatusInsufficientBalance, message = Some MsgPartnerInsufficient,
                     mode = Some bmode,
                     nums = [(''required'', token_cost),
                             (''partner_available'', surplus_number partner)]\<rparr>), w)
      else if bmode \<noteq> PartnerOnly
              \<and> (surplus_number partner < token_cost \<or> surplus_number u < token_cost)
      then ((False, \<lparr>status = StatusInsufficientBalance, message = Some MsgInsufficient,
                     mode = Some bmode,
                     nums = [(''required'', token_cost),
                             (''partner_available'', surplus_number partner),
                             (''user_available'', surplus_number u)]\<rparr>), w)
      else
        (case partner_billing_try u partner token_cost bmode usage_type tokens store w of
           (Inl e, w') \<Rightarrow>
             ((False, \<lparr>status = StatusError, message = Some (MsgDeductException e),
                       mode = Some bmode, nums = []\<rparr>),
              logger ERROR ''partner billing: exception'' w')
         | (Inr r, w') \<Rightarrow> (r, w')))"

section \<open>Normal billing and the entry point\<close>

text \<open>
  \<^verbatim>\<open>_execute_normal_billing\<close>, steps 3 to 7: the conditional decrement, the refresh, the
  usage record and the result. The alert hook that follows the log line is an external call
  inside \<^verbatim>\<open>try\<close>/\<^verbatim>\<open>except: pass\<close> and has no effect here.
\<close>

definition normal_billing_deduct ::
  "user \<Rightarrow> int \<Rightarrow> int \<Rightarrow> string \<Rightarrow> int option \<Rightarrow> (bool \<times> result) io" where
  "normal_billing_deduct u tokens token_cost usage_type store =
     bind_io (conditional_decrement (pk u) token_cost) (\<lambda>updated_count w1.
       if updated_count = 0
       then (Inr (False, \<lparr>status = StatusConcurrentConflict,
                          message = Some MsgDeductConflict, mode = None,
                          nums = [(''required'', token_cost)]\<rparr>),
             logger ERROR ''normal billing: concurrent conflict'' w1)
       else bind_io (arefresh_from_db u) (\<lambda>u2.
              bind_io (usage_acreate
                 \<lparr>use_number = token_cost, surplus = surplus_number u2,
                  use_type = usage_type, ud_user = pk u2, ud_tokens = tokens,
                  consumer = pk u2, ud_store = store_for usage_type store\<rparr>)
                (\<lambda>_ w2.
                   (Inr (True, \<lparr>status = StatusSuccess, message = None, mode = None,
                                nums = [(''deducted'', token_cost), (''tokens'', tokens),
                                        (''remaining'', surplus_number u2)]\<rparr>),
                    logger INFO ''normal billing: deducted'' w2))) w1)"

text \<open>
  \<^verbatim>\<open>_execute_normal_billing\<close>. The check is given the tokens, not the cost. The
  insufficient result is the dictionary literal updated with \<^verbatim>\<open>**detail_info\<close>, whose
  \<^verbatim>\<open>status\<close> and \<^verbatim>\<open>message\<close> therefore win; in \<open>nums\<close> the first entry of a key
  is the dictionary's. The snapshot the check leaves is the one the later steps use.
\<close>

definition execute_normal_billing ::
  "user \<Rightarrow> int \<Rightarrow> int \<Rightarrow> string \<Rightarrow> int option \<Rightarrow> (bool \<times> result) io" where
  "execute_normal_billing u tokens token_cost usage_type store =
     bind_io (check_and_handle_insufficient_balance u tokens usage_type store) (\<lambda>checked w.
       case checked of ((is_sufficient, error_msg, detail_info), u1) \<Rightarrow>
         if \<not> is_sufficient
         then (Inr (False, \<lparr>status = status (the detail_info), message = message (the detail_info),
                            mode = mode (the detail_info),
                            nums = nums (the detail_info)
                                   @ [(''required'', token_cost),
                                      (''available'', surplus_number u1)]\<rparr>),
               logger WARNING ''normal billing: insufficient'' w)
         else normal_billing_deduct u1 tokens token_cost usage_type store w)"

text \<open>
  \<^verbatim>\<open>deduct_balance_by_tokens\<close>, the entry point: cost, strategy, then partner or normal
  billing, all inside one \<^verbatim>\<open>try\<close> block whose handler logs the exception and returns
  the error result. \<^verbatim>\<open>_trigger_balance_alerts\<close> is an external call inside
  \<^verbatim>\<open>try\<close>/\<^verbatim>\<open>except: pass\<close> and has no effect here.
\<close>

definition deduct_balance_by_tokens ::
  "user \<Rightarrow> int \<Rightarrow> string \<Rightarrow> int option \<Rightarrow> real \<Rightarrow> world \<Rightarrow> (bool \<times> result) \<times> world" where
  "deduct_balance_by_tokens u tokens usage_type store cost_multiplier w =
     (let token_cost = token_cost_of tokens cost_multiplier
      in if token_cost = 0
         then ((True, \<lparr>status = StatusSuccess, message = None, mode = None,
                       nums = [(''deducted'', 0), (''tokens'', 0),
                               (''remaining'', surplus_number u)]\<rparr>),
               logger WARNING ''deduct: zero cost'' w)
         else
           (case bind_io (get_billing_strategy u) (\<lambda>bs w1.
                   if is_partner_subordinate bs
                   then
                     (case execute_partner_billing u (the (partner_user bs)) token_cost
                             (billing_mode bs) usage_type tokens store w1 of
                        ((success, r), w2) \<Rightarrow>
                          if \<not> success
                          then (Inr (False, r),
                                handle_partner_insufficient_balance u (the (partner_user bs))
                                  token_cost usage_type w2)
                          else (Inr (True, r), logger INFO ''deduct: partner billing succeeded'' w2))
                   else execute_normal_billing u tokens token_cost usage_type store w1) w of
              (Inl e, w') \<Rightarrow>
                ((False, \<lparr>status = StatusError, message = Some (MsgDeductException e),
                          mode = None, nums = []\<rparr>),
                 logger ERROR ''deduct: exception'' w')
            | (Inr r, w') \<Rightarrow> (r, w')))"

section \<open>Notions of the statements\<close>

text \<open>
  The sponsor an account is linked to: the stored account its \<^verbatim>\<open>superior_id\<close> names.
  An account whose \<^verbatim>\<open>superior_id\<close> is \<^verbatim>\<open>None\<close> or \<^verbatim>\<open>0\<close>, or names no stored
  account, has none.
\<close>

definition sponsor_of :: "world \<Rightarrow> user \<Rightarrow> user option" where
  "sponsor_of w u =
     (case superior_id u of
        None \<Rightarrow> None
      | Some sid \<Rightarrow>
          if sid = 0 then None
          else map_option (\<lambda>r. \<lparr>pk = sid, username = username_col r,
                                  surplus_number = surplus_number_col r,
                                  superior_id = superior_id_col r\<rparr>) (users w sid))"

definition has_partner_membership :: "world \<Rightarrow> user \<Rightarrow> bool" where
  "has_partner_membership w p = ((pk p, partner_group) \<in> set (user_groups w))"

text \<open>An active grant between account and sponsor whose window \<open>[start, end)\<close> holds the current instant.\<close>

definition active_grant :: "world \<Rightarrow> user \<Rightarrow> user \<Rightarrow> bool" where
  "active_grant w u p =
     (\<exists>e \<in> set (entitlements w). ent_user e = pk u \<and> ent_partner e = pk p \<and> is_active e
         \<and> start_at e \<le> now w \<and> now w < end_at e)"

text \<open>The two results of \<^verbatim>\<open>_execute_partner_billing\<close> the statements name.\<close>

definition conflict_rolled_back :: result where
  "conflict_rolled_back =
     \<lparr>status = StatusConcurrentConflict, message = Some MsgUserDeductFailedPartnerRolledBack,
      mode = Some Dual, nums = []\<rparr>"

definition deduct_error :: "billing_mode option \<Rightarrow> exn \<Rightarrow> result" where
  "deduct_error m e =
     \<lparr>status = StatusError, message = Some (MsgDeductException e), mode = m, nums = []\<rparr>"

text \<open>The stored balance of the account of key \<open>k\<close>, if there is one, is not negative.\<close>

definition nonneg_at :: "world \<Rightarrow> int \<Rightarrow> bool" where
  "nonneg_at w k = (case users w k of None \<Rightarrow> True | Some r \<Rightarrow> 0 \<le> surplus_number_col r)"

text \<open>The rejection of a dual deduction by the check on the snapshots.\<close>

definition dual_insufficient :: "int \<Rightarrow> user \<Rightarrow> user \<Rightarrow> result" where
  "dual_insufficient token_cost partner u =
     \<lparr>status = StatusInsufficientBalance, message = Some MsgInsufficient, mode = Some Dual,
      nums = [(''required'', token_cost), (''partner_available'', surplus_number partner),
              (''user_available'', surplus_number u)]\<rparr>"

text \<open>The queries that write a balance.\<close>

definition writes_balance :: "query \<Rightarrow> bool" where
  "writes_balance q =
     (case q of QConditionalDecrement k c \<Rightarrow> True | QUnconditionalIncrement k c \<Rightarrow> True
      | QSaveUser k \<Rightarrow> True | _ \<Rightarrow> False)"

text \<open>The boolean a check returns, when it returns.\<close>

definition check_verdict :: "(exn + ((bool \<times> 'm) \<times> 'u)) \<times> world \<Rightarrow> bool option" where
  "check_verdict x = (case fst x of Inl e \<Rightarrow> None | Inr ((b, m), u) \<Rightarrow> Some b)"

definition sufficient_verdict :: "(exn + (bool \<times> 'm)) \<times> world \<Rightarrow> bool option" where
  "sufficient_verdict x = (case fst x of Inl e \<Rightarrow> None | Inr (b, m) \<Rightarrow> Some b)"

subsection \<open>A store for the examples\<close>

text \<open>
  A partner (key 1, balance 100), a shop under it (key 2, balance 5) with a grant for the
  instants 0 to 29, and an account without sponsor (key 3, balance 500). No query raises.
\<close>

definition example_partner :: user where
  "example_partner = \<lparr>pk = 1, username = ''partner'', surplus_number = 100, superior_id = None\<rparr>"

definition example_user :: user where
  "example_user = \<lparr>pk = 2, username = ''shop'', surplus_number = 5, superior_id = Some 1\<rparr>"

definition example_world :: "int \<Rightarrow> world" where
  "example_world t =
     \<lparr>users = [1 \<mapsto> \<lparr>username_col = ''partner'', surplus_number_col = 100, superior_id_col = None\<rparr>,
               2 \<mapsto> \<lparr>username_col = ''shop'', surplus_number_col = 5, superior_id_col = Some 1\<rparr>,
               3 \<mapsto> \<lparr>username_col = ''solo'', surplus_number_col = 500, superior_id_col = None\<rparr>],
      user_groups = [(1, partner_group)],
      entitlements = [\<lparr>ent_user = 2, ent_partner = 1, is_active = True, start_at = 0, end_at = 30\<rparr>],
      usage = [], notifications = [], now = t, faults = (\<lambda>_. False), queries = [], log = []\<rparr>"

text \<open>A snapshot of the shop that is ahead of the store: it shows 20 where the row has 5.\<close>

definition stale_user :: user where
  "stale_user = example_user\<lparr>surplus_number := 20\<rparr>"

text \<open>A snapshot of the shop with a balance of 200, above the partner's 100.\<close>

definition rich_user :: user where
  "rich_user = example_user\<lparr>surplus_number := 200\<rparr>"

text \<open>The snapshot of the account without sponsor, in step with its row.\<close>

definition example_solo :: user where
  "example_solo = \<lparr>pk = 3, username = ''solo'', surplus_number = 500, superior_id = None\<rparr>"

section \<open>The store operations, one by one\<close>

lemmas example_defs = example_world_def example_user_def example_partner_def stale_user_def
  example_solo_def rich_user_def

lemmas op_defs = conditional_decrement_def unconditional_increment_def arefresh_from_db_def
  run_query_def Let_def

lemma conditional_decrement_one:
  assumes "conditional_decrement k c w = (Inr (Suc n), w1)"
  shows "\<exists>r. users w k = Some r \<and> c \<le> surplus_number_col r \<and> n = 0
           \<and> w1 = w\<lparr>queries := queries w @ [QConditionalDecrement k c],
                     users := (users w)(k \<mapsto> r\<lparr>surplus_number_col := surplus_number_col r - c\<rparr>)\<rparr>"
  using assms
  by (auto simp: conditional_decrement_def run_query_def Let_def split: if_splits option.splits)

lemma conditional_decrement_zero:
  assumes "conditional_decrement k c w = (Inr 0, w1)"
  shows "w1 = w\<lparr>queries := queries w @ [QConditionalDecrement k c]\<rparr>
         \<and> (\<forall>r. users w k = Some r \<longrightarrow> surplus_number_col r < c)"
  using assms
  by (auto simp: conditional_decrement_def run_query_def Let_def split: if_splits option.splits)

lemma arefresh_from_db_ok:
  assumes "arefresh_from_db p w = (Inr p', w1)"
  shows "w1 = w\<lparr>queries := queries w @ [QRefresh (pk p)]\<rparr>
         \<and> (\<exists>r. users w (pk p) = Some r \<and> p' = p\<lparr>surplus_number := surplus_number_col r\<rparr>)"
  using assms
  by (auto simp: arefresh_from_db_def run_query_def Let_def split: if_splits option.splits)

lemma unconditional_increment_ok:
  assumes "unconditional_increment k c w = (Inr m, w1)"
  shows "(case users w k of
            None \<Rightarrow> m = 0 \<and> w1 = w\<lparr>queries := queries w @ [QUnconditionalIncrement k c]\<rparr>
          | Some r \<Rightarrow> m = 1 \<and> w1 = w\<lparr>queries := queries w @ [QUnconditionalIncrement k c],
                     users := (users w)(k \<mapsto> r\<lparr>surplus_number_col := surplus_number_col r + c\<rparr>)\<rparr>)"
  using assms
  by (auto simp: unconditional_increment_def run_query_def Let_def split: if_splits option.splits)

lemma handle_partner_insufficient_balance_frame:
  "users (handle_partner_insufficient_balance u p c t w) = users w
   \<and> usage (handle_partner_insufficient_balance u p c t w) = usage w
   \<and> set (log w) \<subseteq> set (log (handle_partner_insufficient_balance u p c t w))"
  by (auto simp: handle_partner_insufficient_balance_def bind_io_def notify_acreate_def run_query_def
        logger_def Let_def split: prod.splits sum.splits if_splits)

lemma deduct_partner_rejected:
  assumes "get_billing_strategy u w0 = (Inr bs, w)"
    and "is_partner_subordinate bs" "partner_user bs = Some partner"
    and "token_cost_of tokens cost_multiplier \<noteq> 0"
    and "execute_partner_billing u partner (token_cost_of tokens cost_multiplier) (billing_mode bs)
           usage_type tokens store w = ((False, r), w')"
  shows "deduct_balance_by_tokens u tokens usage_type store cost_multiplier w0
           = ((False, r), handle_partner_insufficient_balance u partner
                             (token_cost_of tokens cost_multiplier) usage_type w')"
  using assms by (simp add: deduct_balance_by_tokens_def bind_io_def Let_def)

section \<open>The cost\<close>

lemma token_cost_of_one: "token_cost_of tokens 1 = base_cost_of tokens"
  by (simp add: token_cost_of_def)

section \<open>What the operations leave alone\<close>

lemma logger_users [simp]: "users (logger l s w) = users w"
  by (simp add: logger_def)

lemma arefresh_from_db_users: "arefresh_from_db u w = (r, w') \<Longrightarrow> users w' = users w"
  by (auto simp: arefresh_from_db_def run_query_def Let_def split: if_splits option.splits)

lemma aget_users: "aget key w = (r, w') \<Longrightarrow> users w' = users w"
  by (auto simp: aget_def run_query_def Let_def split: if_splits option.splits)

lemma groups_filter_aexists_users: "groups_filter_aexists u g w = (r, w') \<Longrightarrow> users w' = users w"
  by (auto simp: groups_filter_aexists_def run_query_def Let_def split: if_splits)

lemma entitlement_filter_aexists_users:
  "entitlement_filter_aexists u p t w = (r, w') \<Longrightarrow> users w' = users w"
  by (auto simp: entitlement_filter_aexists_def run_query_def Let_def split: if_splits)

lemma usage_acreate_users: "usage_acreate d w = (r, w') \<Longrightarrow> users w' = users w"
  by (auto simp: usage_acreate_def run_query_def Let_def split: if_splits)

lemma notify_acreate_users: "notify_acreate d w = (r, w') \<Longrightarrow> users w' = users w"
  by (auto simp: notify_acreate_def run_query_def Let_def split: if_splits)

lemma unconditional_increment_raises:
  "unconditional_increment key a w = (Inl e, w') \<Longrightarrow> users w' = users w"
  by (auto simp: unconditional_increment_def run_query_def Let_def split: if_splits option.splits)

lemma get_billing_strategy_users: "get_billing_strategy u w = (r, w') \<Longrightarrow> users w' = users w"
  by (auto simp: get_billing_strategy_def bind_io_def return_io_def
      split: if_splits prod.splits sum.splits exn.splits
      dest!: aget_users groups_filter_aexists_users entitlement_filter_aexists_users)

lemma partner_billing_record_users:
  "partner_billing_record u p c bm t tokens store w = (r, w') \<Longrightarrow> users w' = users w"
  by (auto simp: partner_billing_record_def bind_io_def return_io_def
      split: if_splits prod.splits sum.splits dest!: usage_acreate_users)

lemma handler_record_remainder_users:
  "handler_record_remainder u tokens t store w = (r, w') \<Longrightarrow> users w' = users w"
  by (auto simp: handler_record_remainder_def bind_io_def
      split: if_splits prod.splits sum.splits dest!: usage_acreate_users)

text \<open>The rollback of the dual deduction restores the table of users.\<close>

lemma rollback_restores_users:
  assumes sponsor_debit: "conditional_decrement kp c w = (Inr (Suc n), w1)"
    and refresh: "arefresh_from_db partner w1 = (rr, w2)"
    and user_debit: "conditional_decrement ku c w2 = (Inr 0, w3)"
    and credit: "unconditional_increment kp c w3 = (Inr m, w4)"
  shows "users w4 = users w \<and> m = 1"
proof -
  from conditional_decrement_one [OF sponsor_debit] obtain r where
    r: "users w kp = Some r"
    and w1: "users w1 = (users w)(kp \<mapsto> r\<lparr>surplus_number_col := surplus_number_col r - c\<rparr>)"
    by auto
  have w2: "users w2 = users w1"
    using refresh by (rule arefresh_from_db_users)
  from conditional_decrement_zero [OF user_debit] have w3: "users w3 = users w2"
    by simp
  have u3: "users w3 kp = Some (r\<lparr>surplus_number_col := surplus_number_col r - c\<rparr>)"
    by (simp add: w3 w2 w1)
  from unconditional_increment_ok [OF credit] u3
  have "m = 1" and "users w4 = (users w3)(kp \<mapsto> r\<lparr>surplus_number_col := surplus_number_col r - c + c\<rparr>)"
    by simp_all
  with r show ?thesis
    by (auto simp: w3 w2 w1 fun_eq_iff)
qed

text \<open>Resolving the strategy and notifying write no balance.\<close>

lemma get_billing_strategy_reads:
  "get_billing_strategy u w = (r, w')
     \<Longrightarrow> filter writes_balance (queries w') = filter writes_balance (queries w)"
  by (auto simp: get_billing_strategy_def bind_io_def return_io_def aget_def groups_filter_aexists_def
        entitlement_filter_aexists_def run_query_def Let_def writes_balance_def
      split: if_splits prod.splits sum.splits exn.splits option.splits)

lemma handle_partner_insufficient_balance_reads:
  "filter writes_balance (queries (handle_partner_insufficient_balance u p c t w))
     = filter writes_balance (queries w)"
  by (auto simp: handle_partner_insufficient_balance_def bind_io_def notify_acreate_def run_query_def
        logger_def Let_def writes_balance_def split: prod.splits sum.splits if_splits)

section \<open>Non-negative balances, operation by operation\<close>

lemma nonneg_at_users: "users w' = users w \<Longrightarrow> nonneg_at w k \<Longrightarrow> nonneg_at w' k"
  by (simp add: nonneg_at_def)

lemma nonneg_at_logger [simp]: "nonneg_at (logger l s w) k = nonneg_at w k"
  by (simp add: nonneg_at_def)

lemma conditional_decrement_nonneg:
  "conditional_decrement key c w = (r, w') \<Longrightarrow> nonneg_at w k \<Longrightarrow> nonneg_at w' k"
  by (auto simp: conditional_decrement_def run_query_def Let_def nonneg_at_def
      split: if_splits option.splits)

lemma user_asave_zero_nonneg:
  "user_asave u w = (r, w') \<Longrightarrow> surplus_number u = 0 \<Longrightarrow> nonneg_at w k \<Longrightarrow> nonneg_at w' k"
  by (auto simp: user_asave_def run_query_def Let_def nonneg_at_def split: if_splits)

lemma unconditional_increment_positive_nonneg:
  "unconditional_increment key a w = (r, w') \<Longrightarrow> 0 < a \<Longrightarrow> nonneg_at w k \<Longrightarrow> nonneg_at w' k"
  by (auto simp: unconditional_increment_def run_query_def Let_def nonneg_at_def
      split: if_splits option.splits)

lemma handler_zero_and_notify_nonneg:
  assumes run: "handler_zero_and_notify u0 t w = (r, w')"
    and zero: "surplus_number u0 = 0" and nn: "nonneg_at w k"
  shows "nonneg_at w' k"
proof -
  obtain r1 w1 where save: "user_asave u0 w = (r1, w1)" by (cases "user_asave u0 w")
  have nn1: "nonneg_at w1 k"
    using save zero nn by (rule user_asave_zero_nonneg)
  show ?thesis
  proof (cases r1)
    case (Inl e)
    with save run have "w' = w1" by (simp add: handler_zero_and_notify_def bind_io_def)
    with nn1 show ?thesis by simp
  next
    case (Inr x)
    obtain r2 w2 where ntf: "notify_acreate
          \<lparr>title = get_notification_title t,
           content = get_notification_content t 0, sn_user = pk u0\<rparr>
           (logger INFO ''insufficient: balance zeroed'' w1) = (r2, w2)"
      by (cases "notify_acreate
          \<lparr>title = get_notification_title t,
           content = get_notification_content t 0, sn_user = pk u0\<rparr>
           (logger INFO ''insufficient: balance zeroed'' w1)")
    from notify_acreate_users [OF ntf] have u2: "users w2 = users w1" by simp
    from save Inr ntf run have "users w' = users w2"
      by (cases r2) (auto simp: handler_zero_and_notify_def bind_io_def)
    with u2 nn1 show ?thesis by (auto intro: nonneg_at_users)
  qed
qed

lemma handle_insufficient_balance_internal_nonneg:
  assumes nn: "nonneg_at w k"
  shows "nonneg_at (snd (handle_insufficient_balance_internal u c tokens t store w)) k"
proof -
  obtain r1 w1 where first: "handler_record_remainder u tokens t store w = (r1, w1)"
    by (cases "handler_record_remainder u tokens t store w")
  have nn1: "nonneg_at w1 k"
    using handler_record_remainder_users [OF first] nn by (rule nonneg_at_users)
  show ?thesis
  proof (cases r1)
    case (Inl e)
    with first nn1 show ?thesis by (simp add: handle_insufficient_balance_internal_def Let_def)
  next
    case (Inr x)
    obtain r2 w2 where second: "handler_zero_and_notify (u\<lparr>surplus_number := 0\<rparr>) t w1 = (r2, w2)"
      by (cases "handler_zero_and_notify (u\<lparr>surplus_number := 0\<rparr>) t w1")
    have "nonneg_at w2 k"
      using second _ nn1 by (rule handler_zero_and_notify_nonneg) simp
    with first Inr second show ?thesis
      by (cases r2) (simp_all add: handle_insufficient_balance_internal_def Let_def)
  qed
qed

lemma handle_partner_insufficient_balance_nonneg:
  "nonneg_at w k \<Longrightarrow> nonneg_at (handle_partner_insufficient_balance u p c t w) k"
  using handle_partner_insufficient_balance_frame [of u p c t w] by (auto intro: nonneg_at_users)

lemma check_and_handle_insufficient_balance_nonneg:
  assumes nn: "nonneg_at w k"
  shows "nonneg_at (snd (check_and_handle_insufficient_balance u tokens t store w)) k"
proof -
  obtain r1 w1 where s: "get_billing_strategy u w = (r1, w1)" by (cases "get_billing_strategy u w")
  have nn1: "nonneg_at w1 k"
    using get_billing_strategy_users [OF s] nn by (rule nonneg_at_users)
  show ?thesis
  proof (cases r1)
    case (Inl e)
    with s nn1 show ?thesis
      by (simp add: check_and_handle_insufficient_balance_def Let_def bind_io_def)
  next
    case (Inr bs)
    have a: "nonneg_at (handle_partner_insufficient_balance u p c t w1) k" for p c
      using nn1 by (rule handle_partner_insufficient_balance_nonneg)
    have b: "nonneg_at (snd (handle_insufficient_balance_internal u c tokens t store
                (logger WARNING ''check: user balance insufficient'' w1))) k" for c
      using nn1 by (intro handle_insufficient_balance_internal_nonneg) simp
    from s Inr nn1 a b show ?thesis
      by (simp add: check_and_handle_insufficient_balance_def Let_def bind_io_def split: prod.splits)
        (metis snd_conv)
  qed
qed

lemma partner_billing_try_nonneg:
  assumes run: "partner_billing_try u p c bm t tokens store w = (r, w')"
    and nn: "nonneg_at w k"
  shows "nonneg_at w' k"
proof (cases "conditional_decrement (pk p) c w")
  case (Pair r1 w1)
  have nn1: "nonneg_at w1 k"
    using Pair nn by (rule conditional_decrement_nonneg)
  show ?thesis
  proof (cases r1)
    case (Inl e)
    with Pair run have "w' = w1" by (simp add: partner_billing_try_def bind_io_def)
    with nn1 show ?thesis by simp
  next
    case (Inr n1)
    show ?thesis
    proof (cases n1)
      case 0
      with Pair Inr run have "w' = w1" by (simp add: partner_billing_try_def bind_io_def return_io_def)
      with nn1 show ?thesis by simp
    next
      case (Suc n)
      note debit = Pair [unfolded Inr Suc]
      obtain r2 w2 where ref: "arefresh_from_db p w1 = (r2, w2)" by (cases "arefresh_from_db p w1")
      have nn2: "nonneg_at w2 k"
        using arefresh_from_db_users [OF ref] nn1 by (rule nonneg_at_users)
      show ?thesis
      proof (cases r2)
        case (Inl e)
        with debit ref run have "w' = w2" by (simp add: partner_billing_try_def bind_io_def)
        with nn2 show ?thesis by simp
      next
        case p': (Inr p')
        show ?thesis
        proof (cases "bm = Dual")
          case False
          with debit ref p' run
          have "partner_billing_record u p' c bm t tokens store w2 = (r, w')"
            by (simp add: partner_billing_try_def bind_io_def)
          from partner_billing_record_users [OF this] nn2 show ?thesis by (rule nonneg_at_users)
        next
          case True
          obtain r3 w3 where ud: "conditional_decrement (pk u) c w2 = (r3, w3)"
            by (cases "conditional_decrement (pk u) c w2")
          have nn3: "nonneg_at w3 k"
            using ud nn2 by (rule conditional_decrement_nonneg)
          show ?thesis
          proof (cases r3)
            case (Inl e)
            with debit ref p' True ud run have "w' = w3"
              by (simp add: partner_billing_try_def bind_io_def)
            with nn3 show ?thesis by simp
          next
            case n3: (Inr n3)
            show ?thesis
            proof (cases n3)
              case (Suc n')
              obtain r4 w4 where ru: "arefresh_from_db u w3 = (r4, w4)" by (cases "arefresh_from_db u w3")
              have nn4: "nonneg_at w4 k"
                using arefresh_from_db_users [OF ru] nn3 by (rule nonneg_at_users)
              show ?thesis
              proof (cases r4)
                case (Inl e)
                with debit ref p' True ud n3 Suc ru run have "w' = w4"
                  by (simp add: partner_billing_try_def bind_io_def)
                with nn4 show ?thesis by simp
              next
                case u': (Inr u')
                with debit ref p' True ud n3 Suc ru run
                have "partner_billing_record u' p' c bm t tokens store w4 = (r, w')"
                  by (simp add: partner_billing_try_def bind_io_def)
                from partner_billing_record_users [OF this] nn4 show ?thesis by (rule nonneg_at_users)
              qed
            next
              case 0
              obtain r5 w5 where cr: "unconditional_increment (pk p) c w3 = (r5, w5)"
                by (cases "unconditional_increment (pk p) c w3")
              from debit ref p' True ud n3 0 cr run have w': "w' = w5"
                by (auto simp: partner_billing_try_def bind_io_def return_io_def split: sum.splits)
              show ?thesis
              proof (cases r5)
                case (Inl e)
                from unconditional_increment_raises [OF cr [unfolded Inl]] nn3 w' show ?thesis
                  by (auto intro: nonneg_at_users)
              next
                case m: (Inr m)
                from rollback_restores_users [OF debit ref ud [unfolded n3 0] cr [unfolded m]] nn w'
                show ?thesis by (auto intro: nonneg_at_users)
              qed
            qed
          qed
        qed
      qed
    qed
  qed
qed

lemma execute_partner_billing_nonneg:
  assumes nn: "nonneg_at w k"
  shows "nonneg_at (snd (execute_partner_billing u p c bm t tokens store w)) k"
proof -
  obtain r w' where run: "partner_billing_try u p c bm t tokens store w = (r, w')"
    by (cases "partner_billing_try u p c bm t tokens store w")
  from partner_billing_try_nonneg [OF run nn] have "nonneg_at w' k" .
  with nn run show ?thesis
    by (cases r) (simp_all add: execute_partner_billing_def)
qed

lemma normal_billing_deduct_nonneg:
  assumes run: "normal_billing_deduct u tokens c t store w = (r, w')"
    and nn: "nonneg_at w k"
  shows "nonneg_at w' k"
proof -
  obtain r1 w1 where d: "conditional_decrement (pk u) c w = (r1, w1)"
    by (cases "conditional_decrement (pk u) c w")
  have nn1: "nonneg_at w1 k"
    using d nn by (rule conditional_decrement_nonneg)
  show ?thesis
  proof (cases r1)
    case (Inl e)
    with d run have "w' = w1" by (simp add: normal_billing_deduct_def bind_io_def)
    with nn1 show ?thesis by simp
  next
    case (Inr n1)
    show ?thesis
    proof (cases n1)
      case 0
      with d Inr run have "w' = logger ERROR ''normal billing: concurrent conflict'' w1"
        by (simp add: normal_billing_deduct_def bind_io_def)
      with nn1 show ?thesis by simp
    next
      case (Suc n)
      obtain r2 w2 where ref: "arefresh_from_db u w1 = (r2, w2)" by (cases "arefresh_from_db u w1")
      have nn2: "nonneg_at w2 k"
        using arefresh_from_db_users [OF ref] nn1 by (rule nonneg_at_users)
      show ?thesis
      proof (cases r2)
        case (Inl e)
        with d Inr Suc ref run have "w' = w2" by (simp add: normal_billing_deduct_def bind_io_def)
        with nn2 show ?thesis by simp
      next
        case u2: (Inr u2)
        obtain r3 w3 where rec: "usage_acreate
                 \<lparr>use_number = c, surplus = surplus_number u2,
                  use_type = t, ud_user = pk u2, ud_tokens = tokens,
                  consumer = pk u2, ud_store = store_for t store\<rparr> w2 = (r3, w3)"
          by (cases "usage_acreate
                 \<lparr>use_number = c, surplus = surplus_number u2,
                  use_type = t, ud_user = pk u2, ud_tokens = tokens,
                  consumer = pk u2, ud_store = store_for t store\<rparr> w2")
        have nn3: "nonneg_at w3 k"
          using usage_acreate_users [OF rec] nn2 by (rule nonneg_at_users)
        from d Inr Suc ref u2 rec run have "users w' = users w3"
          by (cases r3) (auto simp: normal_billing_deduct_def bind_io_def)
        then show ?thesis using nn3 by (rule nonneg_at_users)
      qed
    qed
  qed
qed

lemma execute_normal_billing_nonneg:
  assumes nn: "nonneg_at w k"
  shows "nonneg_at (snd (execute_normal_billing u tokens c t store w)) k"
proof -
  obtain r1 w1 where chk: "check_and_handle_insufficient_balance u tokens t store w = (r1, w1)"
    by (cases "check_and_handle_insufficient_balance u tokens t store w")
  have nn1: "nonneg_at w1 k"
    using check_and_handle_insufficient_balance_nonneg [OF nn, of u tokens t store] chk by simp
  show ?thesis
  proof (cases r1)
    case (Inl e)
    with chk nn1 show ?thesis by (simp add: execute_normal_billing_def bind_io_def)
  next
    case (Inr checked)
    obtain suff msg d u1 where checked: "checked = ((suff, msg, d), u1)"
      by (cases checked) auto
    show ?thesis
    proof (cases suff)
      case False
      with chk Inr checked nn1 show ?thesis by (simp add: execute_normal_billing_def bind_io_def)
    next
      case True
      obtain r2 w2 where run: "normal_billing_deduct u1 tokens c t store w1 = (r2, w2)"
        by (cases "normal_billing_deduct u1 tokens c t store w1")
      from normal_billing_deduct_nonneg [OF run nn1] chk Inr checked True run show ?thesis
        by (simp add: execute_normal_billing_def bind_io_def)
    qed
  qed
qed

lemma increase_balance_nonneg:
  assumes nn: "nonneg_at w k"
  shows "nonneg_at (snd (increase_balance u amount t w)) k"
proof (cases "amount \<le> 0")
  case True
  with nn show ?thesis by (simp add: increase_balance_def)
next
  case False
  obtain r1 w1 where inc: "unconditional_increment (pk u) amount w = (r1, w1)"
    by (cases "unconditional_increment (pk u) amount w")
  have nn1: "nonneg_at w1 k"
    using inc _ nn by (rule unconditional_increment_positive_nonneg) (use False in simp)
  show ?thesis
  proof (cases r1)
    case (Inl e)
    with False inc nn1 show ?thesis by (simp add: increase_balance_def bind_io_def)
  next
    case (Inr n1)
    show ?thesis
    proof (cases n1)
      case 0
      with False inc Inr nn1 show ?thesis by (simp add: increase_balance_def bind_io_def)
    next
      case (Suc n)
      obtain r2 w2 where ref: "arefresh_from_db u w1 = (r2, w2)" by (cases "arefresh_from_db u w1")
      have nn2: "nonneg_at w2 k"
        using arefresh_from_db_users [OF ref] nn1 by (rule nonneg_at_users)
      show ?thesis
      proof (cases r2)
        case (Inl e)
        with False inc Inr Suc ref nn2 show ?thesis by (simp add: increase_balance_def bind_io_def)
      next
        case u': (Inr u')
        obtain r3 w3 where rec: "usage_acreate
                             \<lparr>use_number = amount, surplus = surplus_number u', use_type = t,
                              ud_user = pk u, ud_tokens = 0, consumer = pk u, ud_store = None\<rparr> w2 = (r3, w3)"
          by (cases "usage_acreate
                             \<lparr>use_number = amount, surplus = surplus_number u', use_type = t,
                              ud_user = pk u, ud_tokens = 0, consumer = pk u, ud_store = None\<rparr> w2")
        have nn3: "nonneg_at w3 k"
          using usage_acreate_users [OF rec] nn2 by (rule nonneg_at_users)
        with False inc Inr Suc ref u' rec show ?thesis
          by (cases r3) (simp_all add: increase_balance_def bind_io_def)
      qed
    qed
  qed
qed

lemma deduct_balance_by_tokens_nonneg:
  assumes nn: "nonneg_at w k"
  shows "nonneg_at (snd (deduct_balance_by_tokens u tokens t store m w)) k"
proof (cases "token_cost_of tokens m = 0")
  case True
  with nn show ?thesis by (simp add: deduct_balance_by_tokens_def)
next
  case False
  obtain r1 w1 where s: "get_billing_strategy u w = (r1, w1)" by (cases "get_billing_strategy u w")
  have nn1: "nonneg_at w1 k"
    using get_billing_strategy_users [OF s] nn by (rule nonneg_at_users)
  show ?thesis
  proof (cases r1)
    case (Inl e)
    with False s nn1 show ?thesis by (simp add: deduct_balance_by_tokens_def bind_io_def)
  next
    case (Inr bs)
    show ?thesis
    proof (cases "is_partner_subordinate bs")
      case True
      obtain ok r2 w2 where run: "execute_partner_billing u (the (partner_user bs)) (token_cost_of tokens m)
                             (billing_mode bs) t tokens store w1 = ((ok, r2), w2)"
        by (cases "execute_partner_billing u (the (partner_user bs)) (token_cost_of tokens m)
                             (billing_mode bs) t tokens store w1") auto
      have nn2: "nonneg_at w2 k"
        using execute_partner_billing_nonneg [OF nn1, of u "the (partner_user bs)" "token_cost_of tokens m"
            "billing_mode bs" t tokens store] run by simp
      from nn2 have "nonneg_at (handle_partner_insufficient_balance u (the (partner_user bs))
                                  (token_cost_of tokens m) t w2) k"
        by (rule handle_partner_insufficient_balance_nonneg)
      with False s Inr True run nn2 show ?thesis
        by (simp add: deduct_balance_by_tokens_def bind_io_def)
    next
      case no: False
      obtain r2 w2 where run: "execute_normal_billing u tokens (token_cost_of tokens m) t store w1 = (r2, w2)"
        by (cases "execute_normal_billing u tokens (token_cost_of tokens m) t store w1")
      have nn2: "nonneg_at w2 k"
        using execute_normal_billing_nonneg [OF nn1, of u tokens "token_cost_of tokens m" t store] run
        by simp
      with False s Inr no run show ?thesis
        by (cases r2) (simp_all add: deduct_balance_by_tokens_def bind_io_def)
    qed
  qed
qed


section \<open>The entry point on the normal path\<close>

lemmas strategy_defs = get_billing_strategy_def truthy_def bind_io_def return_io_def
  aget_def groups_filter_aexists_def entitlement_filter_aexists_def default_strategy_def

lemmas billing_defs = deduct_balance_by_tokens_def execute_normal_billing_def normal_billing_deduct_def
  check_and_handle_insufficient_balance_def handle_insufficient_balance_internal_def
  handler_record_remainder_def handler_zero_and_notify_def execute_partner_billing_def
  partner_billing_try_def partner_billing_record_def handle_partner_insufficient_balance_def
  usage_acreate_def notify_acreate_def user_asave_def logger_def
  token_cost_of_def base_cost_of_def deduct_error_def store_for_def
  get_notification_title_def get_notification_content_def get_customer_friendly_message_def


lemma deduct_normal_path:
  assumes "get_billing_strategy u w0 = (Inr bs, w)" "\<not> is_partner_subordinate bs"
    and "token_cost_of tokens m \<noteq> 0"
  shows "deduct_balance_by_tokens u tokens t store m w0
           = (case execute_normal_billing u tokens (token_cost_of tokens m) t store w of
                (Inl e, w') \<Rightarrow> ((False, deduct_error None e), logger ERROR ''deduct: exception'' w')
              | (Inr r, w') \<Rightarrow> (r, w'))"
  using assms
  by (simp add: deduct_balance_by_tokens_def bind_io_def Let_def deduct_error_def
      split: prod.splits sum.splits)


lemma normal_strategy:
  assumes nf: "faults w = (\<lambda>_. False)"
    and normal: "sponsor_of w u = None \<or> (\<exists>p. sponsor_of w u = Some p \<and> \<not> has_partner_membership w p)"
  shows "\<exists>qs. get_billing_strategy u w = (Inr default_strategy, w\<lparr>queries := queries w @ qs\<rparr>)"
proof (cases "truthy (superior_id u)")
  case False
  then have "get_billing_strategy u w = (Inr default_strategy, w\<lparr>queries := queries w @ []\<rparr>)"
    by (simp add: get_billing_strategy_def)
  then show ?thesis by blast
next
  case True
  with nf normal show ?thesis
    by (auto simp: get_billing_strategy_def sponsor_of_def has_partner_membership_def
          truthy_def bind_io_def return_io_def aget_def groups_filter_aexists_def
          run_query_def Let_def
        split: option.splits if_splits)
qed

lemma sponsor_of_queries: "sponsor_of (w\<lparr>queries := q\<rparr>) u = sponsor_of w u"
  by (simp add: sponsor_of_def split: option.splits)

lemma has_partner_membership_queries:
  "has_partner_membership (w\<lparr>queries := q\<rparr>) p = has_partner_membership w p"
  by (simp add: has_partner_membership_def)

lemma base_cost_of_nonneg: "0 \<le> base_cost_of tokens"
  by (simp add: base_cost_of_def)

lemma base_cost_le_token_cost:
  assumes "1 \<le> m"
  shows "base_cost_of tokens \<le> token_cost_of tokens m"
proof -
  have "(of_int (base_cost_of tokens) :: real) * 1 \<le> of_int (base_cost_of tokens) * m"
    using assms base_cost_of_nonneg [of tokens] by (intro mult_left_mono) simp_all
  then show ?thesis
    by (simp add: token_cost_of_def le_ceiling_iff)
qed

lemma normal_deduction_commits:
  assumes nf: "faults w = (\<lambda>_. False)"
    and normal: "sponsor_of w u = None \<or> (\<exists>p. sponsor_of w u = Some p \<and> \<not> has_partner_membership w p)"
    and fresh: "users w (pk u) = Some r" "surplus_number_col r = surplus_number u"
    and cost: "token_cost_of tokens m = c" "c \<noteq> 0"
    and enough: "c \<le> surplus_number u" "base_cost_of tokens \<le> surplus_number u"
  shows "fst (deduct_balance_by_tokens u tokens t store m w)
           = (True, \<lparr>status = StatusSuccess, message = None, mode = None,
                     nums = [(''deducted'', c), (''tokens'', tokens),
                             (''remaining'', surplus_number u - c)]\<rparr>)
       \<and> users (snd (deduct_balance_by_tokens u tokens t store m w))
           = (users w)(pk u \<mapsto> r\<lparr>surplus_number_col := surplus_number u - c\<rparr>)
       \<and> usage (snd (deduct_balance_by_tokens u tokens t store m w))
           = usage w @ [\<lparr>use_number = c, surplus = surplus_number u - c, use_type = t,
                         ud_user = pk u, ud_tokens = tokens, consumer = pk u,
                         ud_store = store_for t store\<rparr>]"
proof -
  from normal_strategy [OF nf normal] obtain qs1 where
    s1: "get_billing_strategy u w = (Inr default_strategy, w\<lparr>queries := queries w @ qs1\<rparr>)"
    by blast
  define w1 where "w1 = w\<lparr>queries := queries w @ qs1\<rparr>"
  have nf1: "faults w1 = (\<lambda>_. False)"
    by (simp add: w1_def nf)
  have normal1: "sponsor_of w1 u = None \<or> (\<exists>p. sponsor_of w1 u = Some p \<and> \<not> has_partner_membership w1 p)"
    using normal by (simp add: w1_def sponsor_of_queries has_partner_membership_queries)
  from normal_strategy [OF nf1 normal1] obtain qs2 where
    s2: "get_billing_strategy u w1 = (Inr default_strategy, w1\<lparr>queries := queries w1 @ qs2\<rparr>)"
    by blast
  define w2 where "w2 = w1\<lparr>queries := queries w1 @ qs2\<rparr>"
  have chk: "check_and_handle_insufficient_balance u tokens t store w1 = (Inr ((True, None, None), u), w2)"
    using enough(2)
    by (simp add: check_and_handle_insufficient_balance_def bind_io_def s2 w2_def default_strategy_def Let_def)
  have w2: "faults w2 = (\<lambda>_. False)" "users w2 = users w" "usage w2 = usage w"
    by (simp_all add: w2_def w1_def nf)
  have run: "fst (normal_billing_deduct u tokens c t store w2)
           = Inr (True, \<lparr>status = StatusSuccess, message = None, mode = None,
                     nums = [(''deducted'', c), (''tokens'', tokens),
                             (''remaining'', surplus_number u - c)]\<rparr>)
       \<and> users (snd (normal_billing_deduct u tokens c t store w2))
           = (users w)(pk u \<mapsto> r\<lparr>surplus_number_col := surplus_number u - c\<rparr>)
       \<and> usage (snd (normal_billing_deduct u tokens c t store w2))
           = usage w @ [\<lparr>use_number = c, surplus = surplus_number u - c, use_type = t,
                         ud_user = pk u, ud_tokens = tokens, consumer = pk u,
                         ud_store = store_for t store\<rparr>]"
    using fresh enough(1) w2
    by (simp add: normal_billing_deduct_def bind_io_def op_defs usage_acreate_def logger_def)
  obtain r2 w3 where n: "normal_billing_deduct u tokens c t store w2 = (r2, w3)"
    by (cases "normal_billing_deduct u tokens c t store w2")
  have "deduct_balance_by_tokens u tokens t store m w = (case (r2, w3) of
                (Inl e, w') \<Rightarrow> ((False, deduct_error None e), logger ERROR ''deduct: exception'' w')
              | (Inr r, w') \<Rightarrow> (r, w'))"
    using deduct_normal_path [OF s1 [folded w1_def], of tokens m t store] cost
    by (simp add: default_strategy_def execute_normal_billing_def bind_io_def chk n)
  with run n show ?thesis by simp
qed

lemma normal_insufficient_consumes_remainder:
  assumes nf: "faults w = (\<lambda>_. False)"
    and normal: "sponsor_of w u = None \<or> (\<exists>p. sponsor_of w u = Some p \<and> \<not> has_partner_membership w p)"
    and cost: "token_cost_of tokens m \<noteq> 0"
    and short: "0 \<le> surplus_number u" "surplus_number u < base_cost_of tokens"
  shows "fst (fst (deduct_balance_by_tokens u tokens t store m w)) = False
       \<and> users (snd (deduct_balance_by_tokens u tokens t store m w))
           = (users w)(pk u \<mapsto> \<lparr>username_col = username u, surplus_number_col = 0,
                                   superior_id_col = superior_id u\<rparr>)
       \<and> usage (snd (deduct_balance_by_tokens u tokens t store m w))
           = usage w @ (if surplus_number u = 0 then []
                        else [\<lparr>use_number = surplus_number u, surplus = 0, use_type = t,
                               ud_user = pk u, ud_tokens = tokens, consumer = pk u,
                               ud_store = store_for t store\<rparr>])
       \<and> notifications (snd (deduct_balance_by_tokens u tokens t store m w))
           = notifications w @ [\<lparr>title = TitleReplyQuotaInsufficient, content = ContentRenew,
                                  sn_user = pk u\<rparr>]"
proof -
  from normal_strategy [OF nf normal] obtain qs1 where
    s1: "get_billing_strategy u w = (Inr default_strategy, w\<lparr>queries := queries w @ qs1\<rparr>)"
    by blast
  define w1 where "w1 = w\<lparr>queries := queries w @ qs1\<rparr>"
  have nf1: "faults w1 = (\<lambda>_. False)"
    by (simp add: w1_def nf)
  have normal1: "sponsor_of w1 u = None \<or> (\<exists>p. sponsor_of w1 u = Some p \<and> \<not> has_partner_membership w1 p)"
    using normal by (simp add: w1_def sponsor_of_queries has_partner_membership_queries)
  from normal_strategy [OF nf1 normal1] obtain qs2 where
    s2: "get_billing_strategy u w1 = (Inr default_strategy, w1\<lparr>queries := queries w1 @ qs2\<rparr>)"
    by blast
  define w2 where "w2 = logger WARNING ''check: user balance insufficient'' (w1\<lparr>queries := queries w1 @ qs2\<rparr>)"
  have w2: "faults w2 = (\<lambda>_. False)" "users w2 = users w" "usage w2 = usage w"
      "notifications w2 = notifications w"
    by (simp_all add: w2_def w1_def nf logger_def)
  define h where "h = handle_insufficient_balance_internal u (base_cost_of tokens) tokens t store w2"
  have h: "users (snd h) = (users w)(pk u \<mapsto> \<lparr>username_col = username u, surplus_number_col = 0,
                                   superior_id_col = superior_id u\<rparr>)
       \<and> usage (snd h) = usage w @ (if surplus_number u = 0 then []
                        else [\<lparr>use_number = surplus_number u, surplus = 0, use_type = t,
                               ud_user = pk u, ud_tokens = tokens, consumer = pk u,
                               ud_store = store_for t store\<rparr>])
       \<and> notifications (snd h) = notifications w @ [\<lparr>title = TitleReplyQuotaInsufficient, content = ContentRenew,
                                  sn_user = pk u\<rparr>]"
    using short(1) w2
    by (simp add: h_def handle_insufficient_balance_internal_def handler_record_remainder_def
          handler_zero_and_notify_def bind_io_def usage_acreate_def user_asave_def notify_acreate_def
          run_query_def logger_def Let_def get_notification_title_def get_notification_content_def)
  obtain info u' w3 where hh: "h = ((info, u'), w3)"
    by (cases h) auto
  have chk: "check_and_handle_insufficient_balance u tokens t store w1
               = (Inr ((False, Some (get_customer_friendly_message t), Some info), u'), w3)"
    using short(2) hh [unfolded h_def w2_def]
    by (simp add: check_and_handle_insufficient_balance_def bind_io_def s2 default_strategy_def Let_def)
  have "deduct_balance_by_tokens u tokens t store m w
          = ((False, \<lparr>status = status info, message = message info, mode = mode info,
                       nums = nums info @ [(''required'', token_cost_of tokens m),
                                           (''available'', surplus_number u')]\<rparr>),
             logger WARNING ''normal billing: insufficient'' w3)"
    using deduct_normal_path [OF s1 [folded w1_def], of tokens m t store] cost
    by (simp add: default_strategy_def execute_normal_billing_def bind_io_def chk)
  with h hh show ?thesis by (simp add: logger_def)
qed

section \<open>Strategy resolution\<close>

text \<open>
  Claim C4. When no query raises, \<^verbatim>\<open>_get_billing_strategy\<close> returns the normal strategy
  for an account that has no sponsor or whose sponsor is not in the partner group; for an
  account whose sponsor is a partner it returns \<^verbatim>\<open>partner_only\<close> with the sponsor as
  the partner to debit when an active grant between the two has \<open>start \<le> now < end\<close>,
  and \<^verbatim>\<open>dual\<close> with the same sponsor when there is no such grant.
\<close>

theorem strategy_resolution:
  assumes nf: "faults w = (\<lambda>_. False)"
  shows "((sponsor_of w u = None \<or> (\<exists>p. sponsor_of w u = Some p \<and> \<not> has_partner_membership w p))
            \<longrightarrow> fst (get_billing_strategy u w) = Inr default_strategy)
       \<and> (\<forall>p. sponsor_of w u = Some p \<and> has_partner_membership w p \<and> active_grant w u p
            \<longrightarrow> fst (get_billing_strategy u w)
                  = Inr \<lparr>is_partner_subordinate = True, partner_user = Some p,
                         has_monthly_entitlement = True, billing_mode = PartnerOnly\<rparr>)
       \<and> (\<forall>p. sponsor_of w u = Some p \<and> has_partner_membership w p \<and> \<not> active_grant w u p
            \<longrightarrow> fst (get_billing_strategy u w)
                  = Inr \<lparr>is_partner_subordinate = True, partner_user = Some p,
                         has_monthly_entitlement = False, billing_mode = Dual\<rparr>)"
  using nf
  by (auto simp: get_billing_strategy_def sponsor_of_def has_partner_membership_def active_grant_def
        truthy_def bind_io_def return_io_def aget_def groups_filter_aexists_def
        entitlement_filter_aexists_def run_query_def Let_def list_ex_iff
      split: option.splits if_splits)

text \<open>
  The shop of the example store: under its grant at instant 29, without it at instant 30
  (the window is half-open), and normal when its sponsor is the account of key 3, which
  is no partner.
\<close>

theorem strategy_resolution_witness:
  "fst (get_billing_strategy example_user (example_world 29))
     = Inr \<lparr>is_partner_subordinate = True, partner_user = Some example_partner,
            has_monthly_entitlement = True, billing_mode = PartnerOnly\<rparr>
   \<and> fst (get_billing_strategy example_user (example_world 30))
     = Inr \<lparr>is_partner_subordinate = True, partner_user = Some example_partner,
            has_monthly_entitlement = False, billing_mode = Dual\<rparr>
   \<and> fst (get_billing_strategy (example_user\<lparr>superior_id := Some 3\<rparr>) (example_world 29))
     = Inr default_strategy"
proof -
  have nf: "faults (example_world t) = (\<lambda>_. False)" for t
    by (simp add: example_world_def)
  have sp: "sponsor_of (example_world t) example_user = Some example_partner" for t
    by (simp add: sponsor_of_def example_world_def example_user_def example_partner_def)
  have mem: "has_partner_membership (example_world t) example_partner" for t
    by (simp add: has_partner_membership_def example_world_def example_partner_def)
  have g29: "active_grant (example_world 29) example_user example_partner"
    by (simp add: active_grant_def example_world_def example_user_def example_partner_def)
  have g30: "\<not> active_grant (example_world 30) example_user example_partner"
    by (simp add: active_grant_def example_world_def example_user_def example_partner_def)
  have sp3: "\<exists>p. sponsor_of (example_world 29) (example_user\<lparr>superior_id := Some 3\<rparr>) = Some p
               \<and> \<not> has_partner_membership (example_world 29) p"
    by (simp add: sponsor_of_def has_partner_membership_def example_world_def example_user_def)
  from strategy_resolution [OF nf, of 29 example_user] sp mem g29
       strategy_resolution [OF nf, of 30 example_user] g30
       strategy_resolution [OF nf, of 29 "example_user\<lparr>superior_id := Some 3\<rparr>"] sp3
  show ?thesis by blast
qed

section \<open>Dual billing: rollback, failed rollback, rejection at the check\<close>

text \<open>
  Claim C1. In a dual deduction that passed the check on the snapshots, let the
  conditional decrement of the sponsor change a row, the refresh go through, the
  conditional decrement of the subordinate change no row, and the compensating credit not
  raise. Then \<^verbatim>\<open>_execute_partner_billing\<close> issued exactly these four queries, the
  credit being an unconditional increment of the sponsor by the same amount that changed
  one row; it returns the conflict rejection; and the stored balances after the call are
  those before it, the sponsor's among them. When the deduction is one the entry point
  resolved to dual mode, the entry point returns the same rejection and the stored balances
  after its call are those before it.
\<close>

theorem dual_rollback_round_trip:
  assumes precheck: "token_cost \<le> surplus_number partner" "token_cost \<le> surplus_number u"
    and sponsor_debit: "conditional_decrement (pk partner) token_cost w = (Inr (Suc n), w1)"
    and refresh: "arefresh_from_db partner w1 = (Inr partner', w2)"
    and user_debit: "conditional_decrement (pk u) token_cost w2 = (Inr 0, w3)"
    and credit: "unconditional_increment (pk partner) token_cost w3 = (Inr m, w4)"
  shows "execute_partner_billing u partner token_cost Dual usage_type tokens store w
           = ((False, conflict_rolled_back), w4)
         \<and> m = 1
         \<and> queries w4 = queries w @ [QConditionalDecrement (pk partner) token_cost, QRefresh (pk partner),
                                       QConditionalDecrement (pk u) token_cost,
                                       QUnconditionalIncrement (pk partner) token_cost]
         \<and> users w (pk partner) \<noteq> None
         \<and> users w4 = users w
         \<and> (get_billing_strategy u w0 = (Inr bs, w) \<and> is_partner_subordinate bs
              \<and> partner_user bs = Some partner \<and> billing_mode bs = Dual
              \<and> token_cost_of tokens cost_multiplier = token_cost \<and> token_cost \<noteq> 0
            \<longrightarrow> fst (deduct_balance_by_tokens u tokens usage_type store cost_multiplier w0)
                  = (False, conflict_rolled_back)
                \<and> users (snd (deduct_balance_by_tokens u tokens usage_type store cost_multiplier w0))
                  = users w0)"
proof -
  from conditional_decrement_one [OF sponsor_debit] obtain r where
    r: "users w (pk partner) = Some r"
    and w1: "w1 = w\<lparr>queries := queries w @ [QConditionalDecrement (pk partner) token_cost],
                     users := (users w)(pk partner \<mapsto> r\<lparr>surplus_number_col := surplus_number_col r - token_cost\<rparr>)\<rparr>"
    by blast
  from arefresh_from_db_ok [OF refresh] have w2: "w2 = w1\<lparr>queries := queries w1 @ [QRefresh (pk partner)]\<rparr>"
    by blast
  from conditional_decrement_zero [OF user_debit]
  have w3: "w3 = w2\<lparr>queries := queries w2 @ [QConditionalDecrement (pk u) token_cost]\<rparr>"
    by blast
  from rollback_restores_users [OF sponsor_debit refresh user_debit credit]
  have users: "users w4 = users w" and m: "m = 1"
    by simp_all
  from unconditional_increment_ok [OF credit] r
  have "queries w4 = queries w3 @ [QUnconditionalIncrement (pk partner) token_cost]"
    by (auto simp: w3 w2 w1)
  then have q: "queries w4 = queries w @ [QConditionalDecrement (pk partner) token_cost, QRefresh (pk partner),
                                       QConditionalDecrement (pk u) token_cost,
                                       QUnconditionalIncrement (pk partner) token_cost]"
    by (simp add: w3 w2 w1)
  have run: "partner_billing_try u partner token_cost Dual usage_type tokens store w
               = (Inr (False, conflict_rolled_back), w4)"
    by (simp add: partner_billing_try_def bind_io_def return_io_def sponsor_debit refresh user_debit
          credit conflict_rolled_back_def)
  have ex: "execute_partner_billing u partner token_cost Dual usage_type tokens store w
           = ((False, conflict_rolled_back), w4)"
    using precheck by (simp add: execute_partner_billing_def run)
  have whole: "fst (deduct_balance_by_tokens u tokens usage_type store cost_multiplier w0)
                  = (False, conflict_rolled_back)
                \<and> users (snd (deduct_balance_by_tokens u tokens usage_type store cost_multiplier w0))
                  = users w0"
    if s: "get_billing_strategy u w0 = (Inr bs, w)" "is_partner_subordinate bs"
      "partner_user bs = Some partner"
      and dual: "billing_mode bs = Dual"
      and cost: "token_cost_of tokens cost_multiplier = token_cost" "token_cost \<noteq> 0"
  proof -
    have "deduct_balance_by_tokens u tokens usage_type store cost_multiplier w0
             = ((False, conflict_rolled_back),
                handle_partner_insufficient_balance u partner token_cost usage_type w4)"
      using deduct_partner_rejected [OF s, of tokens cost_multiplier usage_type store] cost ex dual
      by simp
    with handle_partner_insufficient_balance_frame [of u partner token_cost usage_type w4]
      users get_billing_strategy_users [OF s(1)]
    show ?thesis by simp
  qed
  from ex m q r users whole show ?thesis by simp
qed

text \<open>
  The shop's snapshot shows 20, its row 5, the cost is 10: the partner is debited, the
  shop's update changes no row, and the partner is back at 100.
\<close>

theorem dual_rollback_round_trip_witness:
  "fst (deduct_balance_by_tokens stale_user 9500 usage_ai_reply None 1 (example_world 30))
     = (False, conflict_rolled_back)
   \<and> users (snd (deduct_balance_by_tokens stale_user 9500 usage_ai_reply None 1 (example_world 30)))
     = users (example_world 30)
   \<and> map_option surplus_number_col (users (example_world 30) 1) = Some 100"
proof -
  define bs where "bs = \<lparr>is_partner_subordinate = True, partner_user = Some example_partner,
                         has_monthly_entitlement = False, billing_mode = Dual\<rparr>"
  define w where "w = snd (get_billing_strategy stale_user (example_world 30))"
  define w1 where "w1 = snd (conditional_decrement 1 10 w)"
  define w2 where "w2 = snd (arefresh_from_db example_partner w1)"
  define w3 where "w3 = snd (conditional_decrement 2 10 w2)"
  define w4 where "w4 = snd (unconditional_increment 1 10 w3)"
  have w: "w = (example_world 30)\<lparr>queries := [QGet 1, QGroupExists 1, QEntitlementExists 2 1]\<rparr>"
    by (simp add: w_def strategy_defs run_query_def example_defs)
  have s: "get_billing_strategy stale_user (example_world 30) = (Inr bs, w)
           \<and> is_partner_subordinate bs \<and> partner_user bs = Some example_partner
           \<and> billing_mode bs = Dual \<and> token_cost_of 9500 1 = 10 \<and> (10::int) \<noteq> 0"
    by (simp add: w_def bs_def strategy_defs run_query_def example_defs token_cost_of_def
          base_cost_of_def)
  have a: "conditional_decrement (pk example_partner) 10 w = (Inr (Suc 0), w1)"
    by (simp add: w1_def w example_defs op_defs)
  have b: "arefresh_from_db example_partner w1 = (Inr (example_partner\<lparr>surplus_number := 90\<rparr>), w2)"
    by (simp add: w2_def w1_def w example_defs op_defs)
  have c: "conditional_decrement (pk stale_user) 10 w2 = (Inr 0, w3)"
    by (simp add: w3_def w2_def w1_def w example_defs op_defs)
  have d: "unconditional_increment (pk example_partner) 10 w3 = (Inr 1, w4)"
    by (simp add: w4_def w3_def w2_def w1_def w example_defs op_defs)
  have p: "(10::int) \<le> surplus_number example_partner" "(10::int) \<le> surplus_number stale_user"
    by (simp_all add: example_defs)
  from dual_rollback_round_trip [OF p a b c d, where ?w0.0 = "example_world 30" and bs = bs
      and tokens = 9500 and cost_multiplier = 1 and usage_type = usage_ai_reply and store = None] s
  show ?thesis by (simp add: example_world_def)
qed

text \<open>
  Claim C8. Let the entry point resolve a dual strategy and the subordinate's snapshot be
  below the cost. Then \<^verbatim>\<open>_execute_partner_billing\<close> rejects at the check on the
  snapshots and returns the world it was given, having issued no query; the entry point
  returns that rejection, the stored balances after the call are those before it, and the
  call has issued no query that writes a balance: the sponsor's row is never decremented.
\<close>

theorem dual_precheck_rejects_untouched:
  assumes strategy: "get_billing_strategy u w0 = (Inr bs, w)" "is_partner_subordinate bs"
      "partner_user bs = Some partner" "billing_mode bs = Dual"
    and cost: "token_cost_of tokens cost_multiplier = token_cost" "token_cost \<noteq> 0"
    and short: "surplus_number u < token_cost"
  shows "execute_partner_billing u partner token_cost Dual usage_type tokens store w
           = ((False, dual_insufficient token_cost partner u), w)
       \<and> fst (deduct_balance_by_tokens u tokens usage_type store cost_multiplier w0)
           = (False, dual_insufficient token_cost partner u)
       \<and> users (snd (deduct_balance_by_tokens u tokens usage_type store cost_multiplier w0)) = users w0
       \<and> filter writes_balance
            (queries (snd (deduct_balance_by_tokens u tokens usage_type store cost_multiplier w0)))
           = filter writes_balance (queries w0)"
proof -
  have ex: "execute_partner_billing u partner token_cost Dual usage_type tokens store w
           = ((False, dual_insufficient token_cost partner u), w)"
    using short by (simp add: execute_partner_billing_def dual_insufficient_def)
  have d: "deduct_balance_by_tokens u tokens usage_type store cost_multiplier w0
             = ((False, dual_insufficient token_cost partner u),
                handle_partner_insufficient_balance u partner token_cost usage_type w)"
    using deduct_partner_rejected [OF strategy(1-3), of tokens cost_multiplier usage_type store]
      cost ex strategy(4) by simp
  have u: "users (handle_partner_insufficient_balance u partner token_cost usage_type w) = users w0"
    using handle_partner_insufficient_balance_frame [of u partner token_cost usage_type w]
      get_billing_strategy_users [OF strategy(1)] by simp
  have q: "filter writes_balance
             (queries (handle_partner_insufficient_balance u partner token_cost usage_type w))
           = filter writes_balance (queries w0)"
    using handle_partner_insufficient_balance_reads [of u partner token_cost usage_type w]
      get_billing_strategy_reads [OF strategy(1)] by simp
  from ex d u q show ?thesis by simp
qed

text \<open>Sponsor at 100, subordinate at 5, cost 10, the grant expired at instant 30.\<close>

theorem dual_precheck_rejects_untouched_witness:
  "surplus_number example_user < 10
   \<and> fst (deduct_balance_by_tokens example_user 9500 usage_ai_reply None 1 (example_world 30))
       = (False, dual_insufficient 10 example_partner example_user)
   \<and> users (snd (deduct_balance_by_tokens example_user 9500 usage_ai_reply None 1 (example_world 30)))
       = users (example_world 30)
   \<and> filter writes_balance
        (queries (snd (deduct_balance_by_tokens example_user 9500 usage_ai_reply None 1 (example_world 30))))
       = []
   \<and> map_option surplus_number_col (users (example_world 30) 1) = Some 100"
proof -
  define bs where "bs = \<lparr>is_partner_subordinate = True, partner_user = Some example_partner,
                         has_monthly_entitlement = False, billing_mode = Dual\<rparr>"
  define w where "w = snd (get_billing_strategy example_user (example_world 30))"
  have s: "get_billing_strategy example_user (example_world 30) = (Inr bs, w)"
    by (simp add: w_def bs_def strategy_defs run_query_def example_defs)
  have bs: "is_partner_subordinate bs" "partner_user bs = Some example_partner" "billing_mode bs = Dual"
    by (simp_all add: bs_def)
  have cost: "token_cost_of 9500 1 = 10" "(10::int) \<noteq> 0"
    by (simp_all add: token_cost_of_def base_cost_of_def)
  have less: "surplus_number example_user < 10"
    by (simp add: example_user_def)
  from dual_precheck_rejects_untouched [OF s bs cost less, of usage_ai_reply None] less
  show ?thesis
    by (simp add: example_world_def)
qed

text \<open>
  Claim C6. In a dual deduction resolved by the entry point, let the sponsor's decrement
  change a row, the subordinate's change none, and the compensating credit raise. Then
  \<^verbatim>\<open>_execute_partner_billing\<close> logs the exception at error level and returns a failure
  whose status is \<^verbatim>\<open>error\<close>; \<^verbatim>\<open>deduct_balance_by_tokens\<close> returns that same failure
  to its caller, the error line is in the log, and the status is neither the
  insufficient-balance nor the concurrent-conflict one.
\<close>

theorem failed_compensation_is_error:
  assumes strategy: "get_billing_strategy u w0 = (Inr bs, w)" "is_partner_subordinate bs"
      "partner_user bs = Some partner" "billing_mode bs = Dual"
    and cost: "token_cost_of tokens cost_multiplier = token_cost" "token_cost \<noteq> 0"
    and precheck: "token_cost \<le> surplus_number partner" "token_cost \<le> surplus_number u"
    and sponsor_debit: "conditional_decrement (pk partner) token_cost w = (Inr (Suc n), w1)"
    and refresh: "arefresh_from_db partner w1 = (Inr partner', w2)"
    and user_debit: "conditional_decrement (pk u) token_cost w2 = (Inr 0, w3)"
    and credit: "unconditional_increment (pk partner) token_cost w3 = (Inl e, w4)"
  shows "execute_partner_billing u partner token_cost Dual usage_type tokens store w
           = ((False, deduct_error (Some Dual) e), logger ERROR ''partner billing: exception'' w4)
         \<and> fst (deduct_balance_by_tokens u tokens usage_type store cost_multiplier w0)
             = (False, deduct_error (Some Dual) e)
         \<and> (ERROR, ''partner billing: exception'')
             \<in> set (log (snd (deduct_balance_by_tokens u tokens usage_type store cost_multiplier w0)))
         \<and> status (deduct_error (Some Dual) e) \<noteq> StatusInsufficientBalance
         \<and> status (deduct_error (Some Dual) e) \<noteq> StatusConcurrentConflict"
proof -
  have run: "partner_billing_try u partner token_cost Dual usage_type tokens store w = (Inl e, w4)"
    by (simp add: partner_billing_try_def bind_io_def return_io_def sponsor_debit refresh user_debit
          credit)
  have ex: "execute_partner_billing u partner token_cost Dual usage_type tokens store w
           = ((False, deduct_error (Some Dual) e), logger ERROR ''partner billing: exception'' w4)"
    using precheck by (simp add: execute_partner_billing_def run deduct_error_def)
  have d: "deduct_balance_by_tokens u tokens usage_type store cost_multiplier w0
             = ((False, deduct_error (Some Dual) e),
                handle_partner_insufficient_balance u partner token_cost usage_type
                  (logger ERROR ''partner billing: exception'' w4))"
    using deduct_partner_rejected [OF strategy(1-3), of tokens cost_multiplier usage_type store]
      cost ex strategy(4) by simp
  have "(ERROR, ''partner billing: exception'') \<in> set (log (logger ERROR ''partner billing: exception'' w4))"
    by (simp add: logger_def)
  with handle_partner_insufficient_balance_frame
  have "(ERROR, ''partner billing: exception'')
          \<in> set (log (handle_partner_insufficient_balance u partner token_cost usage_type
                  (logger ERROR ''partner billing: exception'' w4)))"
    by blast
  with ex d show ?thesis by (simp add: deduct_error_def)
qed

text \<open>
  The example store at instant 30 with the seventh query raising: three queries resolve
  the strategy, the next three debit the partner, refresh it and fail to debit the shop,
  and the credit is the seventh.
\<close>

theorem failed_compensation_is_error_witness:
  "fst (deduct_balance_by_tokens stale_user 9500 usage_ai_reply None 1
          ((example_world 30)\<lparr>faults := (\<lambda>n. n = 6)\<rparr>))
     = (False, deduct_error (Some Dual) DatabaseError)
   \<and> (ERROR, ''partner billing: exception'')
       \<in> set (log (snd (deduct_balance_by_tokens stale_user 9500 usage_ai_reply None 1
                          ((example_world 30)\<lparr>faults := (\<lambda>n. n = 6)\<rparr>))))"
proof -
  define w0 where "w0 = (example_world 30)\<lparr>faults := (\<lambda>n. n = 6)\<rparr>"
  define bs where "bs = \<lparr>is_partner_subordinate = True, partner_user = Some example_partner,
                         has_monthly_entitlement = False, billing_mode = Dual\<rparr>"
  define w where "w = snd (get_billing_strategy stale_user w0)"
  define w1 where "w1 = snd (conditional_decrement 1 10 w)"
  define w2 where "w2 = snd (arefresh_from_db example_partner w1)"
  define w3 where "w3 = snd (conditional_decrement 2 10 w2)"
  define w4 where "w4 = snd (unconditional_increment 1 10 w3)"
  have w: "w = w0\<lparr>queries := [QGet 1, QGroupExists 1, QEntitlementExists 2 1]\<rparr>"
    by (simp add: w_def w0_def get_billing_strategy_def truthy_def bind_io_def return_io_def
          aget_def groups_filter_aexists_def entitlement_filter_aexists_def run_query_def
          example_defs)
  have s: "get_billing_strategy stale_user w0 = (Inr bs, w)"
    by (simp add: w_def bs_def w0_def get_billing_strategy_def truthy_def bind_io_def return_io_def
          aget_def groups_filter_aexists_def entitlement_filter_aexists_def run_query_def
          example_defs)
  have bs: "is_partner_subordinate bs" "partner_user bs = Some example_partner" "billing_mode bs = Dual"
    by (simp_all add: bs_def)
  have cost: "token_cost_of 9500 1 = 10" "(10::int) \<noteq> 0"
    by (simp_all add: token_cost_of_def base_cost_of_def)
  have p: "(10::int) \<le> surplus_number example_partner" "(10::int) \<le> surplus_number stale_user"
    by (simp_all add: example_defs)
  have a: "conditional_decrement (pk example_partner) 10 w = (Inr (Suc 0), w1)"
    by (simp add: w1_def w w0_def example_defs op_defs)
  have b: "arefresh_from_db example_partner w1 = (Inr (example_partner\<lparr>surplus_number := 90\<rparr>), w2)"
    by (simp add: w2_def w1_def w w0_def example_defs op_defs)
  have c: "conditional_decrement (pk stale_user) 10 w2 = (Inr 0, w3)"
    by (simp add: w3_def w2_def w1_def w w0_def example_defs op_defs)
  have d: "unconditional_increment (pk example_partner) 10 w3 = (Inl DatabaseError, w4)"
    by (simp add: w4_def w3_def w2_def w1_def w w0_def example_defs op_defs)
  from failed_compensation_is_error [OF s bs cost p a b c d, of usage_ai_reply None]
  show ?thesis by (simp add: w0_def)
qed

section \<open>Non-negative balances\<close>

text \<open>
  Claim C2. Whatever the snapshots, the cost, the amount and the fault plan: a stored
  balance that is not negative before a call of normal billing, of partner billing in
  either mode, of the insufficient-balance handler (alone or through the check), of
  \<^verbatim>\<open>increase_balance\<close> or of the entry point \<^verbatim>\<open>deduct_balance_by_tokens\<close> is not
  negative after it.
\<close>

theorem balances_stay_nonnegative:
  assumes "nonneg_at w k"
  shows "nonneg_at (snd (execute_normal_billing u tokens c t store w)) k
       \<and> nonneg_at (snd (execute_partner_billing u p c PartnerOnly t tokens store w)) k
       \<and> nonneg_at (snd (execute_partner_billing u p c Dual t tokens store w)) k
       \<and> nonneg_at (snd (handle_insufficient_balance_internal u c tokens t store w)) k
       \<and> nonneg_at (snd (check_and_handle_insufficient_balance u tokens t store w)) k
       \<and> nonneg_at (snd (increase_balance u amount t w)) k
       \<and> nonneg_at (snd (deduct_balance_by_tokens u tokens t store m w)) k"
  using assms
  by (intro conjI execute_normal_billing_nonneg execute_partner_billing_nonneg
        handle_insufficient_balance_internal_nonneg check_and_handle_insufficient_balance_nonneg
        increase_balance_nonneg deduct_balance_by_tokens_nonneg)

text \<open>The shop's row (key 2, balance 5) through all of them, the dual deduction with its rollback included.\<close>

theorem balances_stay_nonnegative_witness:
  "nonneg_at (example_world 30) 2
   \<and> nonneg_at (snd (execute_normal_billing stale_user 9500 10 usage_ai_reply None (example_world 30))) 2
   \<and> nonneg_at (snd (execute_partner_billing stale_user example_partner 10 Dual usage_ai_reply 9500 None
                        (example_world 30))) 2
   \<and> nonneg_at (snd (handle_insufficient_balance_internal stale_user 10 9500 usage_ai_reply None
                        (example_world 30))) 2
   \<and> nonneg_at (snd (increase_balance stale_user 7 usage_ai_reply (example_world 30))) 2
   \<and> nonneg_at (snd (deduct_balance_by_tokens stale_user 9500 usage_ai_reply None 1 (example_world 30))) 2"
proof -
  have h: "nonneg_at (example_world 30) 2"
    by (simp add: nonneg_at_def example_world_def)
  from balances_stay_nonnegative [OF h, of stale_user 9500 10 usage_ai_reply None example_partner 7 1] h
  show ?thesis by blast
qed

section \<open>The check in dual mode\<close>

text \<open>
  Claim C10. For a subordinate whose strategy resolves to a partner:
  in dual mode \<^verbatim>\<open>check_and_handle_insufficient_balance\<close> returns true exactly when the
  user's own snapshot covers the cost, whatever the partner's balance; in
  \<^verbatim>\<open>partner_only\<close> mode it returns true exactly when the partner's balance covers it;
  and \<^verbatim>\<open>check_balance_sufficient\<close> in dual mode, on balances that are not negative,
  returns true exactly when both balances cover the cost.
\<close>

theorem check_and_handle_dual_reads_own_balance:
  assumes strategy: "fst (get_billing_strategy u w) = Inr bs"
    and sub: "is_partner_subordinate bs" "partner_user bs = Some p"
  shows "(billing_mode bs = Dual \<longrightarrow>
            check_verdict (check_and_handle_insufficient_balance u tokens usage_type store w)
              = Some (base_cost_of tokens \<le> surplus_number u))
       \<and> (billing_mode bs = PartnerOnly \<longrightarrow>
            check_verdict (check_and_handle_insufficient_balance u tokens usage_type store w)
              = Some (base_cost_of tokens \<le> surplus_number p))
       \<and> (billing_mode bs = Dual \<and> 0 \<le> surplus_number u \<and> 0 \<le> surplus_number p \<longrightarrow>
            sufficient_verdict (check_balance_sufficient u tokens w)
              = Some (base_cost_of tokens \<le> surplus_number p \<and> base_cost_of tokens \<le> surplus_number u))"
proof -
  obtain w1 where s: "get_billing_strategy u w = (Inr bs, w1)"
    using strategy by (cases "get_billing_strategy u w") auto
  have dual: "check_verdict (check_and_handle_insufficient_balance u tokens usage_type store w)
              = Some (base_cost_of tokens \<le> surplus_number u)"
    if "billing_mode bs = Dual"
    using s sub that
    by (auto simp: check_verdict_def check_and_handle_insufficient_balance_def bind_io_def Let_def
        split: prod.splits)
  have only: "check_verdict (check_and_handle_insufficient_balance u tokens usage_type store w)
              = Some (base_cost_of tokens \<le> surplus_number p)"
    if "billing_mode bs = PartnerOnly"
    using s sub that
    by (auto simp: check_verdict_def check_and_handle_insufficient_balance_def bind_io_def Let_def)
  have both: "sufficient_verdict (check_balance_sufficient u tokens w)
              = Some (base_cost_of tokens \<le> surplus_number p \<and> base_cost_of tokens \<le> surplus_number u)"
    if "billing_mode bs = Dual" "0 \<le> surplus_number u" "0 \<le> surplus_number p"
    using s sub that
    by (auto simp: sufficient_verdict_def check_balance_sufficient_def bind_io_def return_io_def Let_def)
  from dual only both show ?thesis by blast
qed

text \<open>
  A cost of 150 against a user at 200 under a partner at 100: sufficient for the check
  in dual mode (instant 30), insufficient for it under the grant (instant 29), and
  insufficient for \<^verbatim>\<open>check_balance_sufficient\<close> in dual mode.
\<close>

theorem check_and_handle_dual_reads_own_balance_witness:
  "check_verdict (check_and_handle_insufficient_balance rich_user 150000 usage_ai_reply None (example_world 30))
     = Some True
   \<and> check_verdict (check_and_handle_insufficient_balance rich_user 150000 usage_ai_reply None (example_world 29))
     = Some False
   \<and> sufficient_verdict (check_balance_sufficient rich_user 150000 (example_world 30)) = Some False"
proof -
  define dual where "dual = \<lparr>is_partner_subordinate = True, partner_user = Some example_partner,
                         has_monthly_entitlement = False, billing_mode = Dual\<rparr>"
  define only where "only = \<lparr>is_partner_subordinate = True, partner_user = Some example_partner,
                         has_monthly_entitlement = True, billing_mode = PartnerOnly\<rparr>"
  have s30: "fst (get_billing_strategy rich_user (example_world 30)) = Inr dual"
    by (simp add: dual_def get_billing_strategy_def truthy_def bind_io_def return_io_def
          aget_def groups_filter_aexists_def entitlement_filter_aexists_def run_query_def
          example_defs rich_user_def)
  have s29: "fst (get_billing_strategy rich_user (example_world 29)) = Inr only"
    by (simp add: only_def get_billing_strategy_def truthy_def bind_io_def return_io_def
          aget_def groups_filter_aexists_def entitlement_filter_aexists_def run_query_def
          example_defs rich_user_def)
  have d: "is_partner_subordinate dual" "partner_user dual = Some example_partner" "billing_mode dual = Dual"
    by (simp_all add: dual_def)
  have o: "is_partner_subordinate only" "partner_user only = Some example_partner"
      "billing_mode only = PartnerOnly"
    by (simp_all add: only_def)
  have c: "base_cost_of 150000 = 150"
    by (simp add: base_cost_of_def)
  have b: "surplus_number rich_user = 200" "surplus_number example_partner = 100"
    by (simp_all add: rich_user_def example_defs)
  from check_and_handle_dual_reads_own_balance [OF s30 d(1,2), of 150000 usage_ai_reply None]
       check_and_handle_dual_reads_own_balance [OF s29 o(1,2), of 150000 usage_ai_reply None]
       d(3) o(3) c b
  show ?thesis by simp
qed

section \<open>A usage record that cannot be written\<close>

text \<open>
  Claim C7, as stated, fails. The account without sponsor holds 500 and is charged 1; the
  decrement and the refresh go through and the usage record raises. The stored balance is
  499 and no record exists, but the call reports failure, with status \<^verbatim>\<open>error\<close>, not
  success.
\<close>

theorem usage_record_failure_counterexample:
  "fst (deduct_balance_by_tokens example_solo 1000 usage_ai_reply None 1
          ((example_world 0)\<lparr>faults := (\<lambda>n. n = 2)\<rparr>))
     = (False, deduct_error None DatabaseError)
   \<and> map_option surplus_number_col
        (users (snd (deduct_balance_by_tokens example_solo 1000 usage_ai_reply None 1
                       ((example_world 0)\<lparr>faults := (\<lambda>n. n = 2)\<rparr>))) 3) = Some 499
   \<and> usage (snd (deduct_balance_by_tokens example_solo 1000 usage_ai_reply None 1
                       ((example_world 0)\<lparr>faults := (\<lambda>n. n = 2)\<rparr>))) = []"
  by (simp add: billing_defs strategy_defs op_defs example_defs)

text \<open>
  Claim C7, amended. When the balance mutation of a deduction has committed and the usage
  record then raises, nothing is rolled back and the entry point reports failure with
  status \<^verbatim>\<open>error\<close>, the exception being logged at error level. On the normal path the
  exception leaves \<^verbatim>\<open>_execute_normal_billing\<close> and is caught by the entry point, and
  the row stays decremented by the cost. On the partner path (either mode) it is caught
  inside \<^verbatim>\<open>_execute_partner_billing\<close>, and the stored balances stay those of the
  committed debits.
\<close>

theorem usage_record_failure_is_error:
  "(get_billing_strategy u w0 = (Inr bs, w) \<and> \<not> is_partner_subordinate bs
      \<and> token_cost_of tokens m = c \<and> c \<noteq> 0
      \<and> check_and_handle_insufficient_balance u tokens t store w = (Inr ((True, msg, info), u1), w1)
      \<and> conditional_decrement (pk u1) c w1 = (Inr (Suc n), w2)
      \<and> arefresh_from_db u1 w2 = (Inr u2, w3)
      \<and> usage_acreate \<lparr>use_number = c, surplus = surplus_number u2, use_type = t,
                        ud_user = pk u2, ud_tokens = tokens, consumer = pk u2,
                        ud_store = store_for t store\<rparr> w3 = (Inl e, w4)
    \<longrightarrow> deduct_balance_by_tokens u tokens t store m w0
          = ((False, deduct_error None e), logger ERROR ''deduct: exception'' w4)
        \<and> (\<exists>r. users w1 (pk u1) = Some r
               \<and> users w4 = (users w1)(pk u1 \<mapsto> r\<lparr>surplus_number_col := surplus_number_col r - c\<rparr>)))
   \<and> (get_billing_strategy u w0 = (Inr bs, w) \<and> is_partner_subordinate bs \<and> partner_user bs = Some p
      \<and> token_cost_of tokens m = c \<and> c \<noteq> 0
      \<and> c \<le> surplus_number p \<and> (billing_mode bs \<noteq> PartnerOnly \<longrightarrow> c \<le> surplus_number u)
      \<and> conditional_decrement (pk p) c w = (Inr (Suc n), w1)
      \<and> arefresh_from_db p w1 = (Inr p', w2)
      \<and> (if billing_mode bs = Dual
          then conditional_decrement (pk u) c w2 = (Inr (Suc n'), w3)
               \<and> arefresh_from_db u w3 = (Inr u', wc)
          else wc = w2 \<and> u' = u)
      \<and> partner_billing_record u' p' c (billing_mode bs) t tokens store wc = (Inl e, w5)
    \<longrightarrow> fst (deduct_balance_by_tokens u tokens t store m w0)
          = (False, deduct_error (Some (billing_mode bs)) e)
        \<and> users (snd (deduct_balance_by_tokens u tokens t store m w0)) = users wc
        \<and> (ERROR, ''partner billing: exception'')
            \<in> set (log (snd (deduct_balance_by_tokens u tokens t store m w0))))"
proof (intro conjI impI; elim conjE)
  assume s: "get_billing_strategy u w0 = (Inr bs, w)" "\<not> is_partner_subordinate bs"
    and c: "token_cost_of tokens m = c" "c \<noteq> 0"
    and chk: "check_and_handle_insufficient_balance u tokens t store w = (Inr ((True, msg, info), u1), w1)"
    and dec: "conditional_decrement (pk u1) c w1 = (Inr (Suc n), w2)"
    and ref: "arefresh_from_db u1 w2 = (Inr u2, w3)"
    and rec: "usage_acreate \<lparr>use_number = c, surplus = surplus_number u2, use_type = t,
                        ud_user = pk u2, ud_tokens = tokens, consumer = pk u2,
                        ud_store = store_for t store\<rparr> w3 = (Inl e, w4)"
  have "normal_billing_deduct u1 tokens c t store w1 = (Inl e, w4)"
    by (simp add: normal_billing_deduct_def bind_io_def dec ref rec)
  then have "execute_normal_billing u tokens c t store w = (Inl e, w4)"
    by (simp add: execute_normal_billing_def bind_io_def chk)
  with deduct_normal_path [OF s, of tokens m t store] c
  show "deduct_balance_by_tokens u tokens t store m w0
          = ((False, deduct_error None e), logger ERROR ''deduct: exception'' w4)"
    by simp
  from conditional_decrement_one [OF dec] obtain r where
    r: "users w1 (pk u1) = Some r"
      "users w2 = (users w1)(pk u1 \<mapsto> r\<lparr>surplus_number_col := surplus_number_col r - c\<rparr>)"
    by auto
  from arefresh_from_db_users [OF ref] usage_acreate_users [OF rec] have "users w4 = users w2"
    by simp
  with r show "\<exists>r. users w1 (pk u1) = Some r
               \<and> users w4 = (users w1)(pk u1 \<mapsto> r\<lparr>surplus_number_col := surplus_number_col r - c\<rparr>)"
    by simp
next
  assume s: "get_billing_strategy u w0 = (Inr bs, w)" "is_partner_subordinate bs" "partner_user bs = Some p"
    and c: "token_cost_of tokens m = c" "c \<noteq> 0"
    and pre: "c \<le> surplus_number p" "billing_mode bs \<noteq> PartnerOnly \<longrightarrow> c \<le> surplus_number u"
    and dec: "conditional_decrement (pk p) c w = (Inr (Suc n), w1)"
    and ref: "arefresh_from_db p w1 = (Inr p', w2)"
    and commit: "if billing_mode bs = Dual
          then conditional_decrement (pk u) c w2 = (Inr (Suc n'), w3)
               \<and> arefresh_from_db u w3 = (Inr u', wc)
          else wc = w2 \<and> u' = u"
    and rec: "partner_billing_record u' p' c (billing_mode bs) t tokens store wc = (Inl e, w5)"
  have "partner_billing_try u p c (billing_mode bs) t tokens store w = (Inl e, w5)"
    using commit rec by (simp add: partner_billing_try_def bind_io_def dec ref split: if_splits)
  with pre have ex: "execute_partner_billing u p c (billing_mode bs) t tokens store w
           = ((False, deduct_error (Some (billing_mode bs)) e),
              logger ERROR ''partner billing: exception'' w5)"
    by (auto simp: execute_partner_billing_def deduct_error_def)
  have d: "deduct_balance_by_tokens u tokens t store m w0
             = ((False, deduct_error (Some (billing_mode bs)) e),
                handle_partner_insufficient_balance u p c t
                  (logger ERROR ''partner billing: exception'' w5))"
    using deduct_partner_rejected [OF s, of tokens m t store] c ex by simp
  have l: "(ERROR, ''partner billing: exception'') \<in> set (log (logger ERROR ''partner billing: exception'' w5))"
    by (simp add: logger_def)
  from handle_partner_insufficient_balance_frame
    [of u p c t "logger ERROR ''partner billing: exception'' w5"] l
    partner_billing_record_users [OF rec] d
  have all: "fst (deduct_balance_by_tokens u tokens t store m w0)
          = (False, deduct_error (Some (billing_mode bs)) e)
        \<and> users (snd (deduct_balance_by_tokens u tokens t store m w0)) = users wc
        \<and> (ERROR, ''partner billing: exception'')
            \<in> set (log (snd (deduct_balance_by_tokens u tokens t store m w0)))"
    by auto
  from all show "fst (deduct_balance_by_tokens u tokens t store m w0)
          = (False, deduct_error (Some (billing_mode bs)) e)"
    by simp
  from all show "users (snd (deduct_balance_by_tokens u tokens t store m w0)) = users wc"
    by simp
  from all show "(ERROR, ''partner billing: exception'')
            \<in> set (log (snd (deduct_balance_by_tokens u tokens t store m w0)))"
    by simp
qed

text \<open>
  Both paths on the example store: the account without sponsor charged 1 with the third
  query raising, and the shop in dual mode charged 3 with the eighth query, the partner's
  usage record, raising: the partner stays at 97 and the shop at 2.
\<close>

theorem usage_record_failure_is_error_witness:
  "fst (deduct_balance_by_tokens example_solo 1000 usage_ai_reply None 1
          ((example_world 0)\<lparr>faults := (\<lambda>n. n = 2)\<rparr>))
     = (False, deduct_error None DatabaseError)
   \<and> fst (deduct_balance_by_tokens example_user 3000 usage_ai_reply None 1
          ((example_world 30)\<lparr>faults := (\<lambda>n. n = 7)\<rparr>))
     = (False, deduct_error (Some Dual) DatabaseError)
   \<and> map_option surplus_number_col
        (users (snd (deduct_balance_by_tokens example_user 3000 usage_ai_reply None 1
                       ((example_world 30)\<lparr>faults := (\<lambda>n. n = 7)\<rparr>))) 1) = Some 97
   \<and> map_option surplus_number_col
        (users (snd (deduct_balance_by_tokens example_user 3000 usage_ai_reply None 1
                       ((example_world 30)\<lparr>faults := (\<lambda>n. n = 7)\<rparr>))) 2) = Some 2"
proof -
  define v0 where "v0 = (example_world 0)\<lparr>faults := (\<lambda>n. n = 2)\<rparr>"
  define v2 where "v2 = snd (conditional_decrement 3 1 v0)"
  define v3 where "v3 = snd (arefresh_from_db example_solo v2)"
  define d where "d = \<lparr>use_number = 1, surplus = 499, use_type = usage_ai_reply,
                        ud_user = 3, ud_tokens = 1000, consumer = 3,
                        ud_store = None\<rparr>"
  define v4 where "v4 = snd (usage_acreate d v3)"
  have normal:
    "get_billing_strategy example_solo v0 = (Inr default_strategy, v0) \<and> \<not> is_partner_subordinate default_strategy
      \<and> token_cost_of 1000 1 = 1 \<and> (1::int) \<noteq> 0
      \<and> check_and_handle_insufficient_balance example_solo 1000 usage_ai_reply None v0
           = (Inr ((True, None, None), example_solo), v0)
      \<and> conditional_decrement (pk example_solo) 1 v0 = (Inr (Suc 0), v2)
      \<and> arefresh_from_db example_solo v2 = (Inr (example_solo\<lparr>surplus_number := 499\<rparr>), v3)
      \<and> usage_acreate \<lparr>use_number = 1, surplus = surplus_number (example_solo\<lparr>surplus_number := 499\<rparr>),
                        use_type = usage_ai_reply,
                        ud_user = pk (example_solo\<lparr>surplus_number := 499\<rparr>), ud_tokens = 1000,
                        consumer = pk (example_solo\<lparr>surplus_number := 499\<rparr>),
                        ud_store = store_for usage_ai_reply None\<rparr> v3 = (Inl DatabaseError, v4)"
    by (simp add: v4_def d_def v3_def v2_def v0_def billing_defs strategy_defs op_defs example_defs)
  define x0 where "x0 = (example_world 30)\<lparr>faults := (\<lambda>n. n = 7)\<rparr>"
  define bs where "bs = \<lparr>is_partner_subordinate = True, partner_user = Some example_partner,
                         has_monthly_entitlement = False, billing_mode = Dual\<rparr>"
  define x where "x = snd (get_billing_strategy example_user x0)"
  define x1 where "x1 = snd (conditional_decrement 1 3 x)"
  define x2 where "x2 = snd (arefresh_from_db example_partner x1)"
  define x3 where "x3 = snd (conditional_decrement 2 3 x2)"
  define xc where "xc = snd (arefresh_from_db example_user x3)"
  define x5 where "x5 = snd (partner_billing_record (example_user\<lparr>surplus_number := 2\<rparr>)
                               (example_partner\<lparr>surplus_number := 97\<rparr>) 3 Dual usage_ai_reply 3000 None xc)"
  have xq: "x = x0\<lparr>queries := [QGet 1, QGroupExists 1, QEntitlementExists 2 1]\<rparr>"
    by (simp add: x_def x0_def strategy_defs run_query_def example_defs)
  have partner:
    "get_billing_strategy example_user x0 = (Inr bs, x) \<and> is_partner_subordinate bs
      \<and> partner_user bs = Some example_partner
      \<and> token_cost_of 3000 1 = 3 \<and> (3::int) \<noteq> 0
      \<and> 3 \<le> surplus_number example_partner
      \<and> (billing_mode bs \<noteq> PartnerOnly \<longrightarrow> 3 \<le> surplus_number example_user)
      \<and> conditional_decrement (pk example_partner) 3 x = (Inr (Suc 0), x1)
      \<and> arefresh_from_db example_partner x1 = (Inr (example_partner\<lparr>surplus_number := 97\<rparr>), x2)
      \<and> (if billing_mode bs = Dual
          then conditional_decrement (pk example_user) 3 x2 = (Inr (Suc 0), x3)
               \<and> arefresh_from_db example_user x3 = (Inr (example_user\<lparr>surplus_number := 2\<rparr>), xc)
          else xc = x2 \<and> example_user\<lparr>surplus_number := 2\<rparr> = example_user)
      \<and> partner_billing_record (example_user\<lparr>surplus_number := 2\<rparr>)
            (example_partner\<lparr>surplus_number := 97\<rparr>) 3 (billing_mode bs) usage_ai_reply 3000 None xc
          = (Inl DatabaseError, x5)"
    by (simp add: x5_def xc_def x3_def x2_def x1_def xq bs_def x0_def billing_defs strategy_defs op_defs
          example_defs)
  have bal: "map_option surplus_number_col (users xc 1) = Some 97"
     "map_option surplus_number_col (users xc 2) = Some 2"
    by (simp_all add: xc_def x3_def x2_def x1_def xq x0_def op_defs example_defs)
  from usage_record_failure_is_error [THEN conjunct1, THEN mp, OF normal]
       usage_record_failure_is_error [THEN conjunct2, THEN mp, OF partner] bal
  show ?thesis
    by (simp add: v0_def x0_def bs_def)
qed

section \<open>Normal billing under a multiplier\<close>

text \<open>
  Claim C3, at a multiplier below one. The account without sponsor holds 500; 600000
  tokens at multiplier one half cost 300, which the balance covers. The check inside
  \<^verbatim>\<open>_execute_normal_billing\<close> is given the tokens, computes 600 without the
  multiplier, and treats the account as short: the call returns false, a usage record
  consumes the 500 and the stored balance is 0, where the claim has a committed deduction
  and a balance of 200. Lemma \<open>normal_deduction_commits\<close> gives the claim whenever the
  balance covers the cost of the check as well, which \<open>base_cost_le_token_cost\<close> gives
  for every multiplier from one up.
\<close>

theorem normal_sufficient_at_multiplier_half:
  "token_cost_of 600000 (1 / 2) = 300
   \<and> surplus_number example_solo = 500
   \<and> map_option surplus_number_col (users (example_world 0) 3) = Some 500
   \<and> fst (fst (deduct_balance_by_tokens example_solo 600000 usage_ai_reply None (1 / 2)
                  (example_world 0))) = False
   \<and> map_option surplus_number_col
        (users (snd (deduct_balance_by_tokens example_solo 600000 usage_ai_reply None (1 / 2)
                       (example_world 0))) 3) = Some 0
   \<and> usage (snd (deduct_balance_by_tokens example_solo 600000 usage_ai_reply None (1 / 2)
                    (example_world 0)))
       = [\<lparr>use_number = 500, surplus = 0, use_type = usage_ai_reply, ud_user = 3,
           ud_tokens = 600000, consumer = 3, ud_store = None\<rparr>]"
  by (simp add: billing_defs strategy_defs op_defs example_defs usage_ai_reply_def
        usage_recharge_def usage_buy_partner_package_def usage_package_gift_def)

text \<open>
  Claim C5, at the multiplier two. The same account; 300000 tokens at multiplier 2 cost
  600, which the balance of 500 does not cover. The check computes 300 and passes, the
  conditional decrement by 600 changes no row, and the call returns the concurrent
  conflict: the stored balance is still 500, and there is neither a usage record nor a
  notification, where the claim has a balance of 0, one record of 500 and one
  notification. Lemma \<open>normal_insufficient_consumes_remainder\<close> gives the claim whenever
  the balance is below the cost of the check.
\<close>

theorem normal_insufficient_at_multiplier_two:
  "token_cost_of 300000 2 = 600
   \<and> surplus_number example_solo = 500
   \<and> map_option surplus_number_col (users (example_world 0) 3) = Some 500
   \<and> fst (deduct_balance_by_tokens example_solo 300000 usage_ai_reply None 2 (example_world 0))
       = (False, \<lparr>status = StatusConcurrentConflict, message = Some MsgDeductConflict,
                   mode = None, nums = [(''required'', 600)]\<rparr>)
   \<and> map_option surplus_number_col
        (users (snd (deduct_balance_by_tokens example_solo 300000 usage_ai_reply None 2
                       (example_world 0))) 3) = Some 500
   \<and> usage (snd (deduct_balance_by_tokens example_solo 300000 usage_ai_reply None 2
                    (example_world 0))) = []
   \<and> notifications (snd (deduct_balance_by_tokens example_solo 300000 usage_ai_reply None 2
                            (example_world 0))) = []"
  by (simp add: billing_defs strategy_defs op_defs example_defs)

end
